theory Spec2Isabelle
  imports Complex_Main
begin

section \<open>L-BFGS with backtracking line search (lbfgs_lite.hpp)\<close>

text \<open>
  A shallow embedding of \<^verbatim>\<open>line_search_backtracking\<close> and \<^verbatim>\<open>lbfgs_optimize\<close>.

  Conventions of the model.
  \<^item> A C \<^verbatim>\<open>double\<close> is a \<^typ>\<open>real\<close>: finite values, exact arithmetic.  Rounding,
    infinities and NaN are outside the model.  The one place where the control flow of the
    driver depends on a division whose divisor may be zero (the stagnation rate) writes the
    IEEE outcome out explicitly.  The other divisions whose divisor may be zero, those of
    the two-loop recursion, are divisions of \<^typ>\<open>real\<close>; they differ from those of the
    code at a zero divisor, where the code produces infinities or NaN, and the statement
    about the direction assumes that no divisor is zero.
  \<^item> The line search is embedded a second time over an arbitrary arithmetic in place of
    \<^typ>\<open>real\<close>, for the statement of what its acceptance test guarantees in doubles.
  \<^item> A C \<^verbatim>\<open>int\<close> is an \<^typ>\<open>int\<close>; the iteration counter would have to pass \<open>2^31\<close>
    accepted steps before overflow plays a role.
  \<^item> A buffer of \<open>n\<close> doubles is a list; the vector primitives run over the indices
    \<open>0..<n\<close> exactly as the C loops do, and \<^verbatim>\<open>veccpy\<close> (a \<^verbatim>\<open>memcpy\<close>) copies the
    first \<open>n\<close> entries.  The caller's array \<open>x\<close> is the list of its \<open>n\<close> entries.
  \<^item> The three callbacks are functions of their arguments (the opaque user pointer is
    not modelled); every call of the evaluator, the step-bound provider and the progress
    callback is recorded in a log, in call order.
  \<^item> Allocation is assumed to succeed.
\<close>

subsection \<open>Data types\<close>

type_synonym vec = "real list"

record lbfgs_parameter_t =
  mem_size :: int
  g_epsilon :: real
  past :: int
  delta :: real
  max_iterations :: int
  max_linesearch :: int
  min_step :: real
  max_step :: real
  f_dec_coeff :: real
  s_curv_coeff :: real
  xtol :: real

definition default_param :: lbfgs_parameter_t where
  "default_param =
     \<lparr>mem_size = 8, g_epsilon = 1 / 100000, past = 0, delta = 1 / 100000,
      max_iterations = 0, max_linesearch = 40, min_step = 1 / 10 ^ 20, max_step = 10 ^ 20,
      f_dec_coeff = 1 / 10000, s_curv_coeff = 9 / 10, xtol = 1 / 10 ^ 16\<rparr>"

text \<open>The anonymous enum of return values: three success codes from 0, the errors from -1024.\<close>

definition LBFGS_CONVERGENCE :: int where "LBFGS_CONVERGENCE = 0"
definition LBFGS_STOP :: int where "LBFGS_STOP = 1"
definition LBFGS_ALREADY_MINIMIZED :: int where "LBFGS_ALREADY_MINIMIZED = 2"
definition LBFGSERR_UNKNOWNERROR :: int where "LBFGSERR_UNKNOWNERROR = - 1024"
definition LBFGSERR_LOGICERROR :: int where "LBFGSERR_LOGICERROR = - 1023"
definition LBFGSERR_CANCELED :: int where "LBFGSERR_CANCELED = - 1022"
definition LBFGSERR_INVALID_N :: int where "LBFGSERR_INVALID_N = - 1021"
definition LBFGSERR_INVALID_MEMSIZE :: int where "LBFGSERR_INVALID_MEMSIZE = - 1020"
definition LBFGSERR_INVALID_GEPSILON :: int where "LBFGSERR_INVALID_GEPSILON = - 1019"
definition LBFGSERR_INVALID_TESTPERIOD :: int where "LBFGSERR_INVALID_TESTPERIOD = - 1018"
definition LBFGSERR_INVALID_DELTA :: int where "LBFGSERR_INVALID_DELTA = - 1017"
definition LBFGSERR_INVALID_MINSTEP :: int where "LBFGSERR_INVALID_MINSTEP = - 1016"
definition LBFGSERR_INVALID_MAXSTEP :: int where "LBFGSERR_INVALID_MAXSTEP = - 1015"
definition LBFGSERR_INVALID_FDECCOEFF :: int where "LBFGSERR_INVALID_FDECCOEFF = - 1014"
definition LBFGSERR_INVALID_SCURVCOEFF :: int where "LBFGSERR_INVALID_SCURVCOEFF = - 1013"
definition LBFGSERR_INVALID_XTOL :: int where "LBFGSERR_INVALID_XTOL = - 1012"
definition LBFGSERR_INVALID_MAXLINESEARCH :: int where "LBFGSERR_INVALID_MAXLINESEARCH = - 1011"
definition LBFGSERR_OUTOFINTERVAL :: int where "LBFGSERR_OUTOFINTERVAL = - 1010"
definition LBFGSERR_INCORRECT_TMINMAX :: int where "LBFGSERR_INCORRECT_TMINMAX = - 1009"
definition LBFGSERR_ROUNDING_ERROR :: int where "LBFGSERR_ROUNDING_ERROR = - 1008"
definition LBFGSERR_MINIMUMSTEP :: int where "LBFGSERR_MINIMUMSTEP = - 1007"
definition LBFGSERR_MAXIMUMSTEP :: int where "LBFGSERR_MAXIMUMSTEP = - 1006"
definition LBFGSERR_MAXIMUMLINESEARCH :: int where "LBFGSERR_MAXIMUMLINESEARCH = - 1005"
definition LBFGSERR_MAXIMUMITERATION :: int where "LBFGSERR_MAXIMUMITERATION = - 1004"
definition LBFGSERR_WIDTHTOOSMALL :: int where "LBFGSERR_WIDTHTOOSMALL = - 1003"
definition LBFGSERR_INVALIDPARAMETERS :: int where "LBFGSERR_INVALIDPARAMETERS = - 1002"
definition LBFGSERR_INCREASEGRADIENT :: int where "LBFGSERR_INCREASEGRADIENT = - 1001"

text \<open>
  The evaluator returns the objective value and the gradient it wrote into the buffer.
  The step-bound provider receives \<open>xp\<close> and \<open>d\<close>.  The progress callback receives the
  ten values of its C signature less the user pointer.
\<close>

type_synonym lbfgs_evaluate_t = "vec \<Rightarrow> real \<times> vec"

type_synonym lbfgs_stepbound_t = "vec \<Rightarrow> vec \<Rightarrow> real"

record progress_args =
  pa_x :: vec
  pa_g :: vec
  pa_fx :: real
  pa_xnorm :: real
  pa_gnorm :: real
  pa_step :: real
  pa_n :: int
  pa_k :: int
  pa_ls :: int

type_synonym lbfgs_progress_t = "progress_args \<Rightarrow> int"

record callback_data_t =
  cd_n :: int
  proc_evaluate :: lbfgs_evaluate_t
  proc_stepbound :: "lbfgs_stepbound_t option"
  proc_progress :: "lbfgs_progress_t option"

record iteration_data_t =
  it_alpha :: real
  it_s :: vec
  it_y :: vec
  it_ys :: real

subsection \<open>Vector arithmetic\<close>

definition veccpy :: "vec \<Rightarrow> nat \<Rightarrow> vec" where
  "veccpy x n = take n x"

definition vecncpy :: "vec \<Rightarrow> nat \<Rightarrow> vec" where
  "vecncpy x n = map (\<lambda>i. - (x ! i)) [0..<n]"

definition vecadd :: "vec \<Rightarrow> vec \<Rightarrow> real \<Rightarrow> nat \<Rightarrow> vec" where
  "vecadd y x c n = map (\<lambda>i. y ! i + c * x ! i) [0..<n]"

definition vecdiff :: "vec \<Rightarrow> vec \<Rightarrow> nat \<Rightarrow> vec" where
  "vecdiff x y n = map (\<lambda>i. x ! i - y ! i) [0..<n]"

definition vecscale :: "vec \<Rightarrow> real \<Rightarrow> nat \<Rightarrow> vec" where
  "vecscale y c n = map (\<lambda>i. y ! i * c) [0..<n]"

definition vecdot :: "vec \<Rightarrow> vec \<Rightarrow> nat \<Rightarrow> real" where
  "vecdot x y n = foldl (\<lambda>s i. s + x ! i * y ! i) 0 [0..<n]"

definition vec2norm :: "vec \<Rightarrow> nat \<Rightarrow> real" where
  "vec2norm x n = sqrt (vecdot x x n)"

definition vec2norminv :: "vec \<Rightarrow> nat \<Rightarrow> real" where
  "vec2norminv x n = 1 / vec2norm x n"

subsection \<open>Backtracking line search\<close>

text \<open>
  The in/out arguments \<open>x\<close>, \<open>f\<close>, \<open>g\<close>, \<open>stp\<close> are returned in the result together with
  the return value and the points at which the evaluator was called.
\<close>

record ls_result =
  ls_ret :: int
  ls_x :: vec
  ls_f :: real
  ls_g :: vec
  ls_stp :: real
  ls_evals :: "vec list"

definition dec :: real where
  "dec = 1 / 2"

text \<open>
  The \<^verbatim>\<open>for (;;)\<close> loop.  \<open>count\<close> and \<open>stp\<close> are the loop-carried variables, \<open>evs\<close> the
  evaluator log so far.  Every round either returns or increments \<open>count\<close>, and a round
  with \<open>max_linesearch \<le> count\<close> returns, which is the termination measure.
\<close>

function line_search_loop ::
  "nat \<Rightarrow> callback_data_t \<Rightarrow> lbfgs_parameter_t \<Rightarrow> vec \<Rightarrow> vec \<Rightarrow> real \<Rightarrow> real \<Rightarrow>
   real \<Rightarrow> real \<Rightarrow> int \<Rightarrow> real \<Rightarrow> vec list \<Rightarrow> ls_result" where
  "line_search_loop n cd param s xp stpmin stpmax finit dgtest count stp evs =
     (let x = vecadd (veccpy xp n) s stp n;
          fg = proc_evaluate cd x;
          f = fst fg;
          g = snd fg;
          count' = count + 1;
          evs' = evs @ [x]
      in if \<not> (f > finit + stp * dgtest) then
           \<lparr>ls_ret = count', ls_x = x, ls_f = f, ls_g = g, ls_stp = stp, ls_evals = evs'\<rparr>
         else if stp < stpmin then
           \<lparr>ls_ret = LBFGSERR_MINIMUMSTEP, ls_x = x, ls_f = f, ls_g = g, ls_stp = stp,
            ls_evals = evs'\<rparr>
         else if stp > stpmax then
           \<lparr>ls_ret = LBFGSERR_MAXIMUMSTEP, ls_x = x, ls_f = f, ls_g = g, ls_stp = stp,
            ls_evals = evs'\<rparr>
         else if max_linesearch param \<le> count' then
           \<lparr>ls_ret = LBFGSERR_MAXIMUMLINESEARCH, ls_x = x, ls_f = f, ls_g = g, ls_stp = stp,
            ls_evals = evs'\<rparr>
         else line_search_loop n cd param s xp stpmin stpmax finit dgtest count' (stp * dec) evs')"
  by pat_completeness auto
termination
  by (relation "measure (\<lambda>(n, cd, param, s, xp, stpmin, stpmax, finit, dgtest, count, stp, evs).
        nat (max_linesearch param - count))") auto

definition line_search_backtracking ::
  "nat \<Rightarrow> vec \<Rightarrow> real \<Rightarrow> vec \<Rightarrow> real \<Rightarrow> vec \<Rightarrow> vec \<Rightarrow> vec \<Rightarrow> real \<Rightarrow> real \<Rightarrow>
   callback_data_t \<Rightarrow> lbfgs_parameter_t \<Rightarrow> ls_result" where
  "line_search_backtracking n x f g stp s xp gp stpmin stpmax cd param =
     (if stp \<le> 0 then
        \<lparr>ls_ret = LBFGSERR_INVALIDPARAMETERS, ls_x = x, ls_f = f, ls_g = g, ls_stp = stp,
         ls_evals = []\<rparr>
      else
        let dginit = vecdot gp s n
        in if 0 < dginit then
             \<lparr>ls_ret = LBFGSERR_INCREASEGRADIENT, ls_x = x, ls_f = f, ls_g = g, ls_stp = stp,
              ls_evals = []\<rparr>
           else
             let finit = f;
                 dgtest = f_dec_coeff param * dginit
             in line_search_loop n cd param s xp stpmin stpmax finit dgtest 0 stp [])"

subsection \<open>The line search over an arbitrary arithmetic\<close>

text \<open>
  The acceptance test of the line search, \<^verbatim>\<open>*f > finit + *stp * dgtest\<close>, compares
  doubles: its right-hand side is rounded, and the comparison is false as soon as one side is
  a NaN.  What an accepted trial satisfies can therefore not be read off the model over
  \<^typ>\<open>real\<close>.  The search is embedded a second time, over an arbitrary carrier \<open>'d\<close> with
  its own constants, addition, multiplication and comparisons (\<open>'d arith\<close>); no law is
  assumed of them.  IEEE double arithmetic is one instance, the exact arithmetic of
  \<^typ>\<open>real\<close> another.  The search reads two fields of the parameter block,
  \<^verbatim>\<open>f_dec_coeff\<close> and \<^verbatim>\<open>max_linesearch\<close>.
\<close>

record 'd arith =
  fzero :: 'd
  fhalf :: 'd
  fadd :: "'d \<Rightarrow> 'd \<Rightarrow> 'd"
  fmul :: "'d \<Rightarrow> 'd \<Rightarrow> 'd"
  flt :: "'d \<Rightarrow> 'd \<Rightarrow> bool"
  fgt :: "'d \<Rightarrow> 'd \<Rightarrow> bool"
  fle :: "'d \<Rightarrow> 'd \<Rightarrow> bool"

record 'd ls_param_fp =
  fp_f_dec_coeff :: 'd
  fp_max_linesearch :: int

record 'd ls_result_fp =
  lsf_ret :: int
  lsf_x :: "'d list"
  lsf_f :: 'd
  lsf_g :: "'d list"
  lsf_stp :: 'd
  lsf_evals :: "'d list list"

definition veccpy_fp :: "'d list \<Rightarrow> nat \<Rightarrow> 'd list" where
  "veccpy_fp x n = take n x"

definition vecadd_fp :: "'d arith \<Rightarrow> 'd list \<Rightarrow> 'd list \<Rightarrow> 'd \<Rightarrow> nat \<Rightarrow> 'd list" where
  "vecadd_fp ar y x c n = map (\<lambda>i. fadd ar (y ! i) (fmul ar c (x ! i))) [0..<n]"

definition vecdot_fp :: "'d arith \<Rightarrow> 'd list \<Rightarrow> 'd list \<Rightarrow> nat \<Rightarrow> 'd" where
  "vecdot_fp ar x y n = foldl (\<lambda>s i. fadd ar s (fmul ar (x ! i) (y ! i))) (fzero ar) [0..<n]"

function line_search_loop_fp ::
  "'d arith \<Rightarrow> nat \<Rightarrow> ('d list \<Rightarrow> 'd \<times> 'd list) \<Rightarrow> 'd ls_param_fp \<Rightarrow> 'd list \<Rightarrow> 'd list \<Rightarrow>
   'd \<Rightarrow> 'd \<Rightarrow> 'd \<Rightarrow> 'd \<Rightarrow> int \<Rightarrow> 'd \<Rightarrow> 'd list list \<Rightarrow> 'd ls_result_fp" where
  "line_search_loop_fp ar n evaluate param s xp stpmin stpmax finit dgtest count stp evs =
     (let x = vecadd_fp ar (veccpy_fp xp n) s stp n;
          fg = evaluate x;
          f = fst fg;
          g = snd fg;
          count' = count + 1;
          evs' = evs @ [x]
      in if \<not> fgt ar f (fadd ar finit (fmul ar stp dgtest)) then
           \<lparr>lsf_ret = count', lsf_x = x, lsf_f = f, lsf_g = g, lsf_stp = stp, lsf_evals = evs'\<rparr>
         else if flt ar stp stpmin then
           \<lparr>lsf_ret = LBFGSERR_MINIMUMSTEP, lsf_x = x, lsf_f = f, lsf_g = g, lsf_stp = stp,
            lsf_evals = evs'\<rparr>
         else if fgt ar stp stpmax then
           \<lparr>lsf_ret = LBFGSERR_MAXIMUMSTEP, lsf_x = x, lsf_f = f, lsf_g = g, lsf_stp = stp,
            lsf_evals = evs'\<rparr>
         else if fp_max_linesearch param \<le> count' then
           \<lparr>lsf_ret = LBFGSERR_MAXIMUMLINESEARCH, lsf_x = x, lsf_f = f, lsf_g = g, lsf_stp = stp,
            lsf_evals = evs'\<rparr>
         else line_search_loop_fp ar n evaluate param s xp stpmin stpmax finit dgtest count'
                (fmul ar stp (fhalf ar)) evs')"
  by pat_completeness auto
termination
  by (relation "measure (\<lambda>(ar, n, evaluate, param, s, xp, stpmin, stpmax, finit, dgtest, count,
        stp, evs). nat (fp_max_linesearch param - count))") auto

definition line_search_backtracking_fp ::
  "'d arith \<Rightarrow> nat \<Rightarrow> 'd list \<Rightarrow> 'd \<Rightarrow> 'd list \<Rightarrow> 'd \<Rightarrow> 'd list \<Rightarrow> 'd list \<Rightarrow> 'd list \<Rightarrow> 'd \<Rightarrow> 'd \<Rightarrow>
   ('d list \<Rightarrow> 'd \<times> 'd list) \<Rightarrow> 'd ls_param_fp \<Rightarrow> 'd ls_result_fp" where
  "line_search_backtracking_fp ar n x f g stp s xp gp stpmin stpmax evaluate param =
     (if fle ar stp (fzero ar) then
        \<lparr>lsf_ret = LBFGSERR_INVALIDPARAMETERS, lsf_x = x, lsf_f = f, lsf_g = g, lsf_stp = stp,
         lsf_evals = []\<rparr>
      else
        let dginit = vecdot_fp ar gp s n
        in if flt ar (fzero ar) dginit then
             \<lparr>lsf_ret = LBFGSERR_INCREASEGRADIENT, lsf_x = x, lsf_f = f, lsf_g = g, lsf_stp = stp,
              lsf_evals = []\<rparr>
           else
             let finit = f;
                 dgtest = fmul ar (fp_f_dec_coeff param) dginit
             in line_search_loop_fp ar n evaluate param s xp stpmin stpmax finit dgtest 0 stp [])"

text \<open>
  The exact arithmetic of \<^typ>\<open>real\<close>.  At this instance the search is
  \<open>line_search_backtracking\<close> above.
\<close>

definition real_arith :: "real arith" where
  "real_arith = \<lparr>fzero = 0, fhalf = 1 / 2, fadd = (+), fmul = (*), flt = (<),
     fgt = (\<lambda>a b. a > b), fle = (\<le>)\<rparr>"

subsection \<open>The driver\<close>

text \<open>
  The local variables of \<^verbatim>\<open>lbfgs_optimize\<close> that live across iterations, and the three
  call logs.  \<open>st_pf\<close> is \<open>None\<close> for the null pointer.
\<close>

record lbfgs_state =
  st_x :: vec
  st_g :: vec
  st_xp :: vec
  st_gp :: vec
  st_d :: vec
  st_fx :: real
  st_step :: real
  st_k :: int
  st_end :: int
  st_lm :: "iteration_data_t list"
  st_pf :: "real list option"
  st_evals :: "vec list"
  st_stepbound_calls :: "(vec \<times> vec) list"
  st_progress_calls :: "progress_args list"

datatype step_result = Done int lbfgs_state | Continue lbfgs_state

text \<open>
  The parameter checks at the head of \<^verbatim>\<open>lbfgs_optimize\<close>, in source order; the result is
  the status of the first check that fires.
\<close>

definition check_parameters :: "int \<Rightarrow> lbfgs_parameter_t \<Rightarrow> int option" where
  "check_parameters n param =
     (if n \<le> 0 then Some LBFGSERR_INVALID_N
      else if mem_size param \<le> 0 then Some LBFGSERR_INVALID_MEMSIZE
      else if g_epsilon param < 0 then Some LBFGSERR_INVALID_GEPSILON
      else if past param < 0 then Some LBFGSERR_INVALID_TESTPERIOD
      else if delta param < 0 then Some LBFGSERR_INVALID_DELTA
      else if min_step param < 0 then Some LBFGSERR_INVALID_MINSTEP
      else if max_step param < min_step param then Some LBFGSERR_INVALID_MAXSTEP
      else if f_dec_coeff param < 0 then Some LBFGSERR_INVALID_FDECCOEFF
      else if s_curv_coeff param \<le> f_dec_coeff param \<or> 1 \<le> s_curv_coeff param
        then Some LBFGSERR_INVALID_SCURVCOEFF
      else if xtol param < 0 then Some LBFGSERR_INVALID_XTOL
      else if max_linesearch param \<le> 0 then Some LBFGSERR_INVALID_MAXLINESEARCH
      else None)"

text \<open>
  The two passes of the recursion.  The first argument counts the rounds still to run
  (\<open>bound - i\<close>); \<open>j\<close> is the ring index, \<open>lm\<close> the history, \<open>d\<close> the direction.
\<close>

fun first_loop ::
  "nat \<Rightarrow> nat \<Rightarrow> int \<Rightarrow> int \<Rightarrow> iteration_data_t list \<Rightarrow> vec \<Rightarrow>
   int \<times> iteration_data_t list \<times> vec" where
  "first_loop 0 n m j lm d = (j, lm, d)"
| "first_loop (Suc b) n m j lm d =
     (let j' = (j + m - 1) mod m;
          it = lm ! nat j';
          a = vecdot (it_s it) d n / it_ys it;
          lm' = lm[nat j' := it\<lparr>it_alpha := a\<rparr>];
          d' = vecadd d (it_y it) (- a) n
      in first_loop b n m j' lm' d')"

fun second_loop ::
  "nat \<Rightarrow> nat \<Rightarrow> int \<Rightarrow> int \<Rightarrow> iteration_data_t list \<Rightarrow> vec \<Rightarrow> int \<times> vec" where
  "second_loop 0 n m j lm d = (j, d)"
| "second_loop (Suc b) n m j lm d =
     (let it = lm ! nat j;
          beta = vecdot (it_y it) d n / it_ys it;
          d' = vecadd d (it_s it) (it_alpha it - beta) n
      in second_loop b n m ((j + 1) mod m) lm d')"

text \<open>
  The tail of the loop body: the history update, the recursion and the reset of the step.
\<close>

definition update_direction :: "nat \<Rightarrow> int \<Rightarrow> lbfgs_state \<Rightarrow> lbfgs_state" where
  "update_direction n m st =
     (let it = (st_lm st ! nat (st_end st))
                 \<lparr>it_s := vecdiff (st_x st) (st_xp st) n, it_y := vecdiff (st_g st) (st_gp st) n\<rparr>;
          ys = vecdot (it_y it) (it_s it) n;
          yy = vecdot (it_y it) (it_y it) n;
          lm1 = (st_lm st)[nat (st_end st) := it\<lparr>it_ys := ys\<rparr>];
          bound = (if m \<le> st_k st then m else st_k st);
          k' = st_k st + 1;
          end' = (st_end st + 1) mod m;
          d0 = vecncpy (st_g st) n;
          r1 = first_loop (nat bound) n m end' lm1 d0;
          d2 = vecscale (snd (snd r1)) (ys / yy) n;
          r2 = second_loop (nat bound) n m (fst r1) (fst (snd r1)) d2
      in st\<lparr>st_lm := fst (snd r1), st_k := k', st_end := end', st_d := snd r2, st_step := 1\<rparr>)"

text \<open>
  The step-bound block at the head of the loop body.  It returns \<open>step_max\<close> and the state
  with the step estimate possibly replaced; \<open>xp\<close> is read before the snapshot is taken.
\<close>

definition apply_stepbound ::
  "callback_data_t \<Rightarrow> lbfgs_parameter_t \<Rightarrow> lbfgs_state \<Rightarrow> real \<times> lbfgs_state" where
  "apply_stepbound cd param st =
     (case proc_stepbound cd of
        None \<Rightarrow> (max_step param, st)
      | Some sb \<Rightarrow>
          let b = sb (st_xp st) (st_d st);
              step_max = (if b < max_step param then b else max_step param)
          in (step_max,
              st\<lparr>st_step := (if st_step st \<ge> step_max then step_max / 2 else st_step st),
                 st_stepbound_calls := st_stepbound_calls st @ [(st_xp st, st_d st)]\<rparr>))"

text \<open>
  The stagnation test.  For \<open>fx = 0\<close> the C quotient is an infinity or NaN, and
  \<^verbatim>\<open>fabs(rate) < delta\<close> is false.
\<close>

definition stagnation_stop :: "lbfgs_parameter_t \<Rightarrow> real list \<Rightarrow> int \<Rightarrow> real \<Rightarrow> bool" where
  "stagnation_stop param pf k fx =
     (past param \<le> k \<and> fx \<noteq> 0 \<and>
      \<bar>(pf ! nat (k mod past param) - fx) / fx\<bar> < delta param)"

text \<open>The tests after the progress report: convergence, stagnation, iteration cap.\<close>

definition lbfgs_tests ::
  "nat \<Rightarrow> int \<Rightarrow> lbfgs_parameter_t \<Rightarrow> real \<Rightarrow> real \<Rightarrow> lbfgs_state \<Rightarrow> step_result" where
  "lbfgs_tests n m param xnorm gnorm st =
     (let xnorm' = (if xnorm < 1 then 1 else xnorm)
      in if gnorm / xnorm' \<le> g_epsilon param then Done LBFGS_CONVERGENCE st
         else
           case st_pf st of
             Some pf \<Rightarrow>
               if stagnation_stop param pf (st_k st) (st_fx st) then Done LBFGS_STOP st
               else
                 let st' = st\<lparr>st_pf := Some (pf[nat (st_k st mod past param) := st_fx st])\<rparr>
                 in if max_iterations param \<noteq> 0 \<and> max_iterations param < st_k st + 1
                    then Done LBFGSERR_MAXIMUMITERATION st'
                    else Continue (update_direction n m st')
           | None \<Rightarrow>
               if max_iterations param \<noteq> 0 \<and> max_iterations param < st_k st + 1
               then Done LBFGSERR_MAXIMUMITERATION st
               else Continue (update_direction n m st))"

text \<open>The progress report; the callback's return value becomes \<open>ret\<close>.\<close>

definition report_progress ::
  "callback_data_t \<Rightarrow> real \<Rightarrow> real \<Rightarrow> int \<Rightarrow> lbfgs_state \<Rightarrow> int \<times> lbfgs_state" where
  "report_progress cd xnorm gnorm ls st =
     (case proc_progress cd of
        None \<Rightarrow> (0, st)
      | Some pg \<Rightarrow>
          let args = \<lparr>pa_x = st_x st, pa_g = st_g st, pa_fx = st_fx st, pa_xnorm = xnorm,
                      pa_gnorm = gnorm, pa_step = st_step st, pa_n = cd_n cd, pa_k = st_k st,
                      pa_ls = ls\<rparr>
          in (pg args, st\<lparr>st_progress_calls := st_progress_calls st @ [args]\<rparr>))"

text \<open>One pass through the body of \<^verbatim>\<open>while (loop == 1)\<close>.\<close>

definition lbfgs_iteration ::
  "nat \<Rightarrow> int \<Rightarrow> callback_data_t \<Rightarrow> lbfgs_parameter_t \<Rightarrow> lbfgs_state \<Rightarrow> step_result" where
  "lbfgs_iteration n m cd param st =
     (let step_min = min_step param;
          sb = apply_stepbound cd param st;
          step_max = fst sb;
          st1 = snd sb;
          xp = veccpy (st_x st1) n;
          gp = veccpy (st_g st1) n;
          r = line_search_backtracking n (st_x st1) (st_fx st1) (st_g st1) (st_step st1)
                (st_d st1) xp gp step_min step_max cd param;
          ls = ls_ret r;
          st2 = st1\<lparr>st_xp := xp, st_gp := gp, st_x := ls_x r, st_fx := ls_f r, st_g := ls_g r,
                    st_step := ls_stp r, st_evals := st_evals st1 @ ls_evals r\<rparr>
      in if ls < 0 then Done ls (st2\<lparr>st_x := veccpy xp n, st_g := veccpy gp n\<rparr>)
         else
           let xnorm = vec2norm (st_x st2) n;
               gnorm = vec2norm (st_g st2) n;
               pr = report_progress cd xnorm gnorm ls st2
           in if fst pr \<noteq> 0 then Done (fst pr) (snd pr)
              else lbfgs_tests n m param xnorm gnorm (snd pr))"

text \<open>
  The loop itself may run forever (no iteration cap by default), so it is a partial
  function: \<open>None\<close> is a run that never leaves the loop.
\<close>

partial_function (option) lbfgs_loop ::
  "nat \<Rightarrow> int \<Rightarrow> callback_data_t \<Rightarrow> lbfgs_parameter_t \<Rightarrow> lbfgs_state \<Rightarrow>
   (int \<times> lbfgs_state) option" where
  "lbfgs_loop n m cd param st =
     (case lbfgs_iteration n m cd param st of
        Done ret st' \<Rightarrow> Some (ret, st')
      | Continue st' \<Rightarrow> lbfgs_loop n m cd param st')"

text \<open>
  What the caller sees: the return value, the array \<open>x\<close>, the cell behind \<open>ptr_fx\<close>
  (\<open>None\<close> for a null pointer) and the call logs.
\<close>

record lbfgs_result =
  res_ret :: int
  res_x :: vec
  res_fx :: "real option"
  res_evals :: "vec list"
  res_stepbound_calls :: "(vec \<times> vec) list"
  res_progress_calls :: "progress_args list"

definition lbfgs_exit :: "real option \<Rightarrow> int \<times> lbfgs_state \<Rightarrow> lbfgs_result" where
  "lbfgs_exit ptr_fx rs =
     \<lparr>res_ret = fst rs, res_x = st_x (snd rs),
      res_fx = (case ptr_fx of None \<Rightarrow> None | Some v \<Rightarrow> Some (st_fx (snd rs))),
      res_evals = st_evals (snd rs), res_stepbound_calls = st_stepbound_calls (snd rs),
      res_progress_calls = st_progress_calls (snd rs)\<rparr>"

text \<open>
  The state after allocation and the first evaluation at the caller's \<open>x\<close>.  \<open>step\<close>, \<open>k\<close>
  and \<open>end\<close> are not yet assigned at this point; the model holds \<open>0\<close> for them, and no
  path reads them before the assignments at the head of the \<open>else\<close> branch.
\<close>

definition lbfgs_init ::
  "nat \<Rightarrow> int \<Rightarrow> callback_data_t \<Rightarrow> lbfgs_parameter_t \<Rightarrow> vec \<Rightarrow> lbfgs_state" where
  "lbfgs_init n m cd param x =
     (let fg = proc_evaluate cd x;
          fx = fst fg;
          g = snd fg;
          pf = (if 0 < past param then Some ((replicate (nat (past param)) 0)[0 := fx])
                else None)
      in \<lparr>st_x = x, st_g = g, st_xp = replicate n 0, st_gp = replicate n 0,
          st_d = vecncpy g n, st_fx = fx, st_step = 0, st_k = 0, st_end = 0,
          st_lm = replicate (nat m)
                    \<lparr>it_alpha = 0, it_s = replicate n 0, it_y = replicate n 0, it_ys = 0\<rparr>,
          st_pf = pf, st_evals = [x], st_stepbound_calls = [], st_progress_calls = []\<rparr>)"

definition lbfgs_optimize ::
  "int \<Rightarrow> vec \<Rightarrow> real option \<Rightarrow> lbfgs_evaluate_t \<Rightarrow> lbfgs_stepbound_t option \<Rightarrow>
   lbfgs_progress_t option \<Rightarrow> lbfgs_parameter_t option \<Rightarrow> lbfgs_result option" where
  "lbfgs_optimize n x ptr_fx evaluate stepbound progress param_opt =
     (let param = (case param_opt of Some p \<Rightarrow> p | None \<Rightarrow> default_param);
          m = mem_size param;
          cd = \<lparr>cd_n = n, proc_evaluate = evaluate, proc_stepbound = stepbound,
                proc_progress = progress\<rparr>
      in case check_parameters n param of
           Some err \<Rightarrow>
             Some \<lparr>res_ret = err, res_x = x, res_fx = ptr_fx, res_evals = [],
                   res_stepbound_calls = [], res_progress_calls = []\<rparr>
         | None \<Rightarrow>
             let st0 = lbfgs_init (nat n) m cd param x;
                 xnorm = vec2norm (st_x st0) (nat n);
                 gnorm = vec2norm (st_g st0) (nat n);
                 xnorm' = (if xnorm < 1 then 1 else xnorm)
             in if gnorm / xnorm' \<le> g_epsilon param then
                  Some (lbfgs_exit ptr_fx (LBFGS_ALREADY_MINIMIZED, st0))
                else
                  map_option (lbfgs_exit ptr_fx)
                    (lbfgs_loop (nat n) m cd param
                       (st0\<lparr>st_step := vec2norminv (st_d st0) (nat n), st_k := 1, st_end := 0\<rparr>)))"

section \<open>Notions used in the statements\<close>

text \<open>
  The definitions of this section are not part of the program: they name the pieces of a
  run that the statements speak about.
\<close>

subsection \<open>The line search\<close>

text \<open>
  \<open>trial_point\<close> is the point \<open>xp + t\<cdot>s\<close> a trial with step \<open>t\<close> evaluates,
  \<open>sufficient_decrease\<close> the acceptance test at step \<open>t\<close>.  \<open>ls_outcome \<dots> k r\<close> says that
  the loop entered with \<open>count\<close>, \<open>stp\<close> and log \<open>evs\<close> ran \<open>k + 1\<close> trials, at the
  steps \<open>stp\<cdot>dec\<^sup>i\<close>: the first \<open>k\<close> were rejected with the step inside the bounds and
  the trial budget not yet used up, and the last one decided the result \<open>r\<close>.
\<close>

definition trial_point :: "nat \<Rightarrow> vec \<Rightarrow> vec \<Rightarrow> real \<Rightarrow> vec" where
  "trial_point n xp s t = vecadd (veccpy xp n) s t n"

definition sufficient_decrease ::
  "callback_data_t \<Rightarrow> nat \<Rightarrow> vec \<Rightarrow> vec \<Rightarrow> real \<Rightarrow> real \<Rightarrow> real \<Rightarrow> bool" where
  "sufficient_decrease cd n xp s finit dgtest t =
     (fst (proc_evaluate cd (trial_point n xp s t)) \<le> finit + t * dgtest)"

definition ls_outcome ::
  "nat \<Rightarrow> callback_data_t \<Rightarrow> lbfgs_parameter_t \<Rightarrow> vec \<Rightarrow> vec \<Rightarrow> real \<Rightarrow> real \<Rightarrow> real \<Rightarrow> real \<Rightarrow>
   int \<Rightarrow> real \<Rightarrow> vec list \<Rightarrow> nat \<Rightarrow> ls_result \<Rightarrow> bool" where
  "ls_outcome n cd param s xp stpmin stpmax finit dgtest count stp evs k r =
     (let t = stp * dec ^ k
      in ls_stp r = t \<and> ls_x r = trial_point n xp s t \<and>
         ls_f r = fst (proc_evaluate cd (ls_x r)) \<and> ls_g r = snd (proc_evaluate cd (ls_x r)) \<and>
         ls_evals r = evs @ map (\<lambda>i. trial_point n xp s (stp * dec ^ i)) [0..<Suc k] \<and>
         (\<forall>i<k. \<not> sufficient_decrease cd n xp s finit dgtest (stp * dec ^ i) \<and>
                 stpmin \<le> stp * dec ^ i \<and> stp * dec ^ i \<le> stpmax \<and>
                 count + int i + 1 < max_linesearch param) \<and>
         (ls_ret r = count + int k + 1 \<and> sufficient_decrease cd n xp s finit dgtest t \<or>
          ls_ret r = LBFGSERR_MINIMUMSTEP \<and> \<not> sufficient_decrease cd n xp s finit dgtest t \<and>
            t < stpmin \<or>
          ls_ret r = LBFGSERR_MAXIMUMSTEP \<and> \<not> sufficient_decrease cd n xp s finit dgtest t \<and>
            stpmin \<le> t \<and> stpmax < t \<or>
          ls_ret r = LBFGSERR_MAXIMUMLINESEARCH \<and> \<not> sufficient_decrease cd n xp s finit dgtest t \<and>
            stpmin \<le> t \<and> t \<le> stpmax \<and> max_linesearch param \<le> count + int k + 1))"

subsection \<open>The line search over an arbitrary arithmetic\<close>

text \<open>
  The notions of the line search, in the arithmetic \<open>ar\<close>.  \<open>halved ar t k\<close> is the step \<open>t\<close>
  after \<open>k\<close> multiplications by \<open>0.5\<close>; \<open>trial_point_fp\<close> the point \<open>xp + t\<cdot>s\<close> as the code
  computes it; \<open>rejected\<close> the test \<^verbatim>\<open>f > finit + stp * dgtest\<close> at the step \<open>t\<close> as the
  code evaluates it.  \<open>ls_outcome_fp \<dots> k r\<close> says that the loop entered with \<open>count\<close>,
  \<open>stp\<close> and log \<open>evs\<close> ran \<open>k + 1\<close> trials, at the steps \<open>halved ar stp i\<close>: the first \<open>k\<close>
  were rejected, passed both bound tests and left the trial budget not used up, and the
  last one decided the result \<open>r\<close>.
\<close>

definition halved :: "'d arith \<Rightarrow> 'd \<Rightarrow> nat \<Rightarrow> 'd" where
  "halved ar t k = ((\<lambda>u. fmul ar u (fhalf ar)) ^^ k) t"

definition trial_point_fp :: "'d arith \<Rightarrow> nat \<Rightarrow> 'd list \<Rightarrow> 'd list \<Rightarrow> 'd \<Rightarrow> 'd list" where
  "trial_point_fp ar n xp s t = map (\<lambda>i. fadd ar (xp ! i) (fmul ar t (s ! i))) [0..<n]"

definition rejected ::
  "'d arith \<Rightarrow> ('d list \<Rightarrow> 'd \<times> 'd list) \<Rightarrow> nat \<Rightarrow> 'd list \<Rightarrow> 'd list \<Rightarrow> 'd \<Rightarrow> 'd \<Rightarrow> 'd \<Rightarrow> bool" where
  "rejected ar evaluate n xp s finit dgtest t =
     fgt ar (fst (evaluate (trial_point_fp ar n xp s t))) (fadd ar finit (fmul ar t dgtest))"

definition ls_outcome_fp ::
  "'d arith \<Rightarrow> nat \<Rightarrow> ('d list \<Rightarrow> 'd \<times> 'd list) \<Rightarrow> 'd ls_param_fp \<Rightarrow> 'd list \<Rightarrow> 'd list \<Rightarrow>
   'd \<Rightarrow> 'd \<Rightarrow> 'd \<Rightarrow> 'd \<Rightarrow> int \<Rightarrow> 'd \<Rightarrow> 'd list list \<Rightarrow> nat \<Rightarrow> 'd ls_result_fp \<Rightarrow> bool" where
  "ls_outcome_fp ar n evaluate param s xp stpmin stpmax finit dgtest count stp evs k r =
     (let t = halved ar stp k
      in lsf_stp r = t \<and> lsf_x r = trial_point_fp ar n xp s t \<and>
         lsf_f r = fst (evaluate (lsf_x r)) \<and> lsf_g r = snd (evaluate (lsf_x r)) \<and>
         lsf_evals r = evs @ map (\<lambda>i. trial_point_fp ar n xp s (halved ar stp i)) [0..<Suc k] \<and>
         (\<forall>i<k. rejected ar evaluate n xp s finit dgtest (halved ar stp i) \<and>
                 \<not> flt ar (halved ar stp i) stpmin \<and> \<not> fgt ar (halved ar stp i) stpmax \<and>
                 count + int i + 1 < fp_max_linesearch param) \<and>
         (lsf_ret r = count + int k + 1 \<and> \<not> rejected ar evaluate n xp s finit dgtest t \<or>
          lsf_ret r = LBFGSERR_MINIMUMSTEP \<and> rejected ar evaluate n xp s finit dgtest t \<and>
            flt ar t stpmin \<or>
          lsf_ret r = LBFGSERR_MAXIMUMSTEP \<and> rejected ar evaluate n xp s finit dgtest t \<and>
            \<not> flt ar t stpmin \<and> fgt ar t stpmax \<or>
          lsf_ret r = LBFGSERR_MAXIMUMLINESEARCH \<and> rejected ar evaluate n xp s finit dgtest t \<and>
            \<not> flt ar t stpmin \<and> \<not> fgt ar t stpmax \<and>
            fp_max_linesearch param \<le> count + int k + 1))"

text \<open>
  \<open>ls_result_fp_of\<close> and \<open>ls_param_fp_of\<close> read a result and a parameter block of the model
  over \<^typ>\<open>real\<close> as ones of the generic model.
\<close>

definition ls_result_fp_of :: "ls_result \<Rightarrow> real ls_result_fp" where
  "ls_result_fp_of r = \<lparr>lsf_ret = ls_ret r, lsf_x = ls_x r, lsf_f = ls_f r, lsf_g = ls_g r,
     lsf_stp = ls_stp r, lsf_evals = ls_evals r\<rparr>"

definition ls_param_fp_of :: "lbfgs_parameter_t \<Rightarrow> real ls_param_fp" where
  "ls_param_fp_of param =
     \<lparr>fp_f_dec_coeff = f_dec_coeff param, fp_max_linesearch = max_linesearch param\<rparr>"

subsection \<open>Runs of the driver\<close>

text \<open>
  \<open>effective_param\<close> and \<open>lbfgs_cd\<close> are the parameter set and the callback record that
  \<^verbatim>\<open>lbfgs_optimize\<close> builds from its arguments; \<open>norm_test\<close> is the gradient-norm test used
  for \<open>LBFGS_ALREADY_MINIMIZED\<close> and \<open>LBFGS_CONVERGENCE\<close>; \<open>lbfgs_entry\<close> is the state in
  which the loop is entered.  \<open>lbfgs_iterate i\<close> runs \<open>i\<close> iterations that all go on to a
  next one, and \<open>reaches \<dots> i st\<close> says that the run of \<^verbatim>\<open>lbfgs_optimize\<close> on the given
  arguments passes validation, is not minimal at the start, and enters its \<open>(i+1)\<close>-th
  iteration in state \<open>st\<close>.
\<close>

definition effective_param :: "lbfgs_parameter_t option \<Rightarrow> lbfgs_parameter_t" where
  "effective_param param_opt = (case param_opt of Some p \<Rightarrow> p | None \<Rightarrow> default_param)"

definition lbfgs_cd ::
  "int \<Rightarrow> lbfgs_evaluate_t \<Rightarrow> lbfgs_stepbound_t option \<Rightarrow> lbfgs_progress_t option \<Rightarrow>
   callback_data_t" where
  "lbfgs_cd n evaluate stepbound progress =
     \<lparr>cd_n = n, proc_evaluate = evaluate, proc_stepbound = stepbound, proc_progress = progress\<rparr>"

definition norm_test :: "nat \<Rightarrow> lbfgs_parameter_t \<Rightarrow> vec \<Rightarrow> vec \<Rightarrow> bool" where
  "norm_test n param x g =
     (let xnorm = vec2norm x n;
          gnorm = vec2norm g n;
          xnorm' = (if xnorm < 1 then 1 else xnorm)
      in gnorm / xnorm' \<le> g_epsilon param)"

definition lbfgs_entry ::
  "nat \<Rightarrow> int \<Rightarrow> callback_data_t \<Rightarrow> lbfgs_parameter_t \<Rightarrow> vec \<Rightarrow> lbfgs_state" where
  "lbfgs_entry n m cd param x =
     (let st0 = lbfgs_init n m cd param x
      in st0\<lparr>st_step := vec2norminv (st_d st0) n, st_k := 1, st_end := 0\<rparr>)"

fun lbfgs_iterate ::
  "nat \<Rightarrow> nat \<Rightarrow> int \<Rightarrow> callback_data_t \<Rightarrow> lbfgs_parameter_t \<Rightarrow> lbfgs_state \<Rightarrow>
   lbfgs_state option" where
  "lbfgs_iterate 0 n m cd param st = Some st"
| "lbfgs_iterate (Suc i) n m cd param st =
     (case lbfgs_iteration n m cd param st of
        Done ret st' \<Rightarrow> None
      | Continue st' \<Rightarrow> lbfgs_iterate i n m cd param st')"

definition reaches ::
  "int \<Rightarrow> vec \<Rightarrow> lbfgs_evaluate_t \<Rightarrow> lbfgs_stepbound_t option \<Rightarrow> lbfgs_progress_t option \<Rightarrow>
   lbfgs_parameter_t option \<Rightarrow> nat \<Rightarrow> lbfgs_state \<Rightarrow> bool" where
  "reaches n x evaluate stepbound progress param_opt i st =
     (let param = effective_param param_opt;
          cd = lbfgs_cd n evaluate stepbound progress
      in check_parameters n param = None \<and>
         \<not> norm_test (nat n) param x (snd (evaluate x)) \<and>
         lbfgs_iterate i (nat n) (mem_size param) cd param
           (lbfgs_entry (nat n) (mem_size param) cd param x) = Some st)"

text \<open>
  The phases of one iteration entered in state \<open>st\<close>: the line search it performs
  (\<open>iteration_search\<close>, started from \<open>iteration_step\<close> under the bound
  \<open>iteration_step_max\<close>), the state after the search (\<open>searched_state\<close>), the arguments and
  the return value of the progress call (\<open>iteration_report\<close>, \<open>progress_ret\<close>), the state
  after the call (\<open>reported_state\<close>) and after the store into the past-objective buffer
  (\<open>stored_state\<close>).
\<close>

definition iteration_search ::
  "nat \<Rightarrow> callback_data_t \<Rightarrow> lbfgs_parameter_t \<Rightarrow> lbfgs_state \<Rightarrow> ls_result" where
  "iteration_search n cd param st =
     (let sb = apply_stepbound cd param st;
          st1 = snd sb
      in line_search_backtracking n (st_x st1) (st_fx st1) (st_g st1) (st_step st1) (st_d st1)
           (veccpy (st_x st1) n) (veccpy (st_g st1) n) (min_step param) (fst sb) cd param)"

definition searched_state ::
  "nat \<Rightarrow> callback_data_t \<Rightarrow> lbfgs_parameter_t \<Rightarrow> lbfgs_state \<Rightarrow> lbfgs_state" where
  "searched_state n cd param st =
     (let st1 = snd (apply_stepbound cd param st);
          r = iteration_search n cd param st
      in st1\<lparr>st_xp := veccpy (st_x st1) n, st_gp := veccpy (st_g st1) n, st_x := ls_x r,
             st_fx := ls_f r, st_g := ls_g r, st_step := ls_stp r,
             st_evals := st_evals st1 @ ls_evals r\<rparr>)"

definition iteration_report ::
  "nat \<Rightarrow> callback_data_t \<Rightarrow> lbfgs_parameter_t \<Rightarrow> lbfgs_state \<Rightarrow> progress_args" where
  "iteration_report n cd param st =
     (let r = iteration_search n cd param st
      in \<lparr>pa_x = ls_x r, pa_g = ls_g r, pa_fx = ls_f r, pa_xnorm = vec2norm (ls_x r) n,
          pa_gnorm = vec2norm (ls_g r) n, pa_step = ls_stp r, pa_n = cd_n cd, pa_k = st_k st,
          pa_ls = ls_ret r\<rparr>)"

definition progress_ret ::
  "nat \<Rightarrow> callback_data_t \<Rightarrow> lbfgs_parameter_t \<Rightarrow> lbfgs_state \<Rightarrow> int" where
  "progress_ret n cd param st =
     (case proc_progress cd of None \<Rightarrow> 0 | Some pg \<Rightarrow> pg (iteration_report n cd param st))"

definition reported_state ::
  "nat \<Rightarrow> callback_data_t \<Rightarrow> lbfgs_parameter_t \<Rightarrow> lbfgs_state \<Rightarrow> lbfgs_state" where
  "reported_state n cd param st =
     (let st2 = searched_state n cd param st
      in case proc_progress cd of
           None \<Rightarrow> st2
         | Some pg \<Rightarrow>
             st2\<lparr>st_progress_calls := st_progress_calls st2 @ [iteration_report n cd param st]\<rparr>)"

definition stored_state :: "lbfgs_parameter_t \<Rightarrow> lbfgs_state \<Rightarrow> lbfgs_state" where
  "stored_state param st =
     (case st_pf st of
        None \<Rightarrow> st
      | Some pf \<Rightarrow> st\<lparr>st_pf := Some (pf[nat (st_k st mod past param) := st_fx st])\<rparr>)"

definition iteration_step_max :: "callback_data_t \<Rightarrow> lbfgs_parameter_t \<Rightarrow> lbfgs_state \<Rightarrow> real" where
  "iteration_step_max cd param st = fst (apply_stepbound cd param st)"

definition iteration_step :: "callback_data_t \<Rightarrow> lbfgs_parameter_t \<Rightarrow> lbfgs_state \<Rightarrow> real" where
  "iteration_step cd param st = st_step (snd (apply_stepbound cd param st))"

subsection \<open>Validation\<close>





subsection \<open>Stagnation rate and two-loop recursion\<close>


type_synonym curvature_pair = "vec \<times> vec \<times> real"





definition pair_of :: "iteration_data_t \<Rightarrow> curvature_pair" where
  "pair_of e = (it_s e, it_y e, it_ys e)"

definition slot :: "int \<Rightarrow> int \<Rightarrow> nat \<Rightarrow> nat" where
  "slot m e i = nat ((e - 1 - int i) mod m)"



section \<open>Example inputs\<close>

text \<open>
  One-dimensional inputs on which the statements are instantiated: the evaluators
  \<open>f(x) = x\<^sup>2\<close>, the constant \<open>0\<close> and \<open>f(x) = x\<^sup>3/3 - x\<close>; a step-bound provider and
  two progress callbacks; parameter sets that differ from the defaults in one or two fields.
\<close>

definition eval_sq :: lbfgs_evaluate_t where
  "eval_sq x = ((x ! 0)\<^sup>2, [2 * x ! 0])"

definition eval_zero :: lbfgs_evaluate_t where
  "eval_zero x = (0, [0])"

definition cd_sq :: callback_data_t where
  "cd_sq = \<lparr>cd_n = 1, proc_evaluate = eval_sq, proc_stepbound = None, proc_progress = None\<rparr>"

definition cd_zero :: callback_data_t where
  "cd_zero = \<lparr>cd_n = 1, proc_evaluate = eval_zero, proc_stepbound = None, proc_progress = None\<rparr>"

definition param_one_trial :: lbfgs_parameter_t where
  "param_one_trial = default_param\<lparr>max_linesearch := 1\<rparr>"

definition eval_cubic :: lbfgs_evaluate_t where
  "eval_cubic x = ((x ! 0) ^ 3 / 3 - x ! 0, [(x ! 0)\<^sup>2 - 1])"

definition progress_cancel_at_2 :: lbfgs_progress_t where
  "progress_cancel_at_2 a = (if pa_k a = 2 then 1 else 0)"

definition param_negative_cap :: lbfgs_parameter_t where
  "param_negative_cap = default_param\<lparr>max_iterations := - 1\<rparr>"



definition stepbound_eighth :: lbfgs_stepbound_t where
  "stepbound_eighth xp d = 1 / 8"

definition progress_continue :: lbfgs_progress_t where
  "progress_continue a = 0"

definition param_cap_1 :: lbfgs_parameter_t where
  "param_cap_1 = default_param\<lparr>max_iterations := 1\<rparr>"



text \<open>
  The two fields the line search reads, at their default values, and an arithmetic with a
  NaN: exact arithmetic on \<open>Some\<close> values, \<open>None\<close> absorbing in every operation and false in
  every comparison.  \<open>eval_nan\<close> is an objective that is NaN everywhere.
\<close>

definition ls_param_default :: "real ls_param_fp" where
  "ls_param_default = \<lparr>fp_f_dec_coeff = 1 / 10000, fp_max_linesearch = 40\<rparr>"

definition nan_lift2 :: "(real \<Rightarrow> real \<Rightarrow> real) \<Rightarrow> real option \<Rightarrow> real option \<Rightarrow> real option" where
  "nan_lift2 f a b = (case a of None \<Rightarrow> None | Some u \<Rightarrow> (case b of None \<Rightarrow> None | Some v \<Rightarrow> Some (f u v)))"

definition nan_cmp :: "(real \<Rightarrow> real \<Rightarrow> bool) \<Rightarrow> real option \<Rightarrow> real option \<Rightarrow> bool" where
  "nan_cmp c a b = (case a of None \<Rightarrow> False | Some u \<Rightarrow> (case b of None \<Rightarrow> False | Some v \<Rightarrow> c u v))"

definition nan_arith :: "real option arith" where
  "nan_arith = \<lparr>fzero = Some 0, fhalf = Some (1 / 2), fadd = nan_lift2 (+), fmul = nan_lift2 (*),
     flt = nan_cmp (<), fgt = nan_cmp (\<lambda>a b. a > b), fle = nan_cmp (\<le>)\<rparr>"

definition eval_nan :: "real option list \<Rightarrow> real option \<times> real option list" where
  "eval_nan x = (None, [None])"

definition ls_param_nan :: "real option ls_param_fp" where
  "ls_param_nan = \<lparr>fp_f_dec_coeff = Some (1 / 10000), fp_max_linesearch = 40\<rparr>"



section \<open>Verification\<close>

lemmas status_defs =
  LBFGS_CONVERGENCE_def LBFGS_STOP_def LBFGS_ALREADY_MINIMIZED_def
  LBFGSERR_UNKNOWNERROR_def LBFGSERR_LOGICERROR_def LBFGSERR_CANCELED_def
  LBFGSERR_INVALID_N_def LBFGSERR_INVALID_MEMSIZE_def LBFGSERR_INVALID_GEPSILON_def
  LBFGSERR_INVALID_TESTPERIOD_def LBFGSERR_INVALID_DELTA_def LBFGSERR_INVALID_MINSTEP_def
  LBFGSERR_INVALID_MAXSTEP_def LBFGSERR_INVALID_FDECCOEFF_def LBFGSERR_INVALID_SCURVCOEFF_def
  LBFGSERR_INVALID_XTOL_def LBFGSERR_INVALID_MAXLINESEARCH_def LBFGSERR_OUTOFINTERVAL_def
  LBFGSERR_INCORRECT_TMINMAX_def LBFGSERR_ROUNDING_ERROR_def LBFGSERR_MINIMUMSTEP_def
  LBFGSERR_MAXIMUMSTEP_def LBFGSERR_MAXIMUMLINESEARCH_def LBFGSERR_MAXIMUMITERATION_def
  LBFGSERR_WIDTHTOOSMALL_def LBFGSERR_INVALIDPARAMETERS_def LBFGSERR_INCREASEGRADIENT_def

declare line_search_loop.simps [simp del]

lemmas vec_defs = veccpy_def vecncpy_def vecadd_def vecdiff_def vecscale_def vecdot_def
  vec2norm_def vec2norminv_def

lemmas ls_eval = line_search_backtracking_def line_search_loop.simps vec_defs Let_def dec_def
  default_param_def cd_sq_def cd_zero_def eval_sq_def eval_zero_def

subsection \<open>The line search loop\<close>

lemma ls_outcome_step:
  assumes "\<not> sufficient_decrease cd n xp s finit dgtest stp" "stpmin \<le> stp" "stp \<le> stpmax"
    "count + 1 < max_linesearch param"
    "ls_outcome n cd param s xp stpmin stpmax finit dgtest (count + 1) (stp * dec)
       (evs @ [trial_point n xp s stp]) k r"
  shows "ls_outcome n cd param s xp stpmin stpmax finit dgtest count stp evs (Suc k) r"
proof -
  have pw: "\<And>i. stp * dec * dec ^ i = stp * dec ^ Suc i" by simp
  have shift: "map (\<lambda>i. trial_point n xp s (stp * dec ^ i)) [0..<Suc (Suc k)] =
      trial_point n xp s stp # map (\<lambda>i. trial_point n xp s (stp * dec * dec ^ i)) [0..<Suc k]"
    by (simp only: upt_conv_Cons [of 0 "Suc (Suc k)"] map_Suc_upt [symmetric] list.map map_map o_def pw)
       simp
  have all: "\<And>i. i < Suc k \<Longrightarrow> \<not> sufficient_decrease cd n xp s finit dgtest (stp * dec ^ i) \<and>
                 stpmin \<le> stp * dec ^ i \<and> stp * dec ^ i \<le> stpmax \<and>
                 count + int i + 1 < max_linesearch param"
  proof -
    fix i assume i: "i < Suc k"
    show "\<not> sufficient_decrease cd n xp s finit dgtest (stp * dec ^ i) \<and>
                 stpmin \<le> stp * dec ^ i \<and> stp * dec ^ i \<le> stpmax \<and>
                 count + int i + 1 < max_linesearch param"
    proof (cases i)
      case 0
      then show ?thesis using assms(1-4) by simp
    next
      case (Suc j)
      then have "j < k" using i by simp
      then show ?thesis using assms(5) Suc
        by (simp add: ls_outcome_def Let_def pw del: power_Suc)
    qed
  qed
  show ?thesis
    using assms(5) all unfolding ls_outcome_def Let_def shift
    by (simp add: mult.assoc add.assoc)
qed

lemma line_search_loop_outcome:
  "\<exists>k. ls_outcome n cd param s xp stpmin stpmax finit dgtest count stp evs k
          (line_search_loop n cd param s xp stpmin stpmax finit dgtest count stp evs)"
proof (induction n cd param s xp stpmin stpmax finit dgtest count stp evs
    rule: line_search_loop.induct)
  case (1 n cd param s xp stpmin stpmax finit dgtest count stp evs)
  let ?x = "trial_point n xp s stp"
  let ?r = "line_search_loop n cd param s xp stpmin stpmax finit dgtest count stp evs"
  show ?case
  proof (cases "sufficient_decrease cd n xp s finit dgtest stp \<or> stp < stpmin \<or> stpmax < stp \<or>
       max_linesearch param \<le> count + 1")
    case True
    then have "ls_outcome n cd param s xp stpmin stpmax finit dgtest count stp evs 0 ?r"
      by (subst line_search_loop.simps)
        (auto simp: ls_outcome_def sufficient_decrease_def trial_point_def Let_def not_less)
    then show ?thesis ..
  next
    case False
    then have f: "\<not> sufficient_decrease cd n xp s finit dgtest stp" "stpmin \<le> stp" "stp \<le> stpmax"
      "count + 1 < max_linesearch param" by auto
    have rec: "?r = line_search_loop n cd param s xp stpmin stpmax finit dgtest (count + 1)
       (stp * dec) (evs @ [?x])"
      using f by (subst line_search_loop.simps)
        (simp add: sufficient_decrease_def trial_point_def Let_def not_less not_le)
    from f have "\<exists>k. ls_outcome n cd param s xp stpmin stpmax finit dgtest (count + 1) (stp * dec)
       (evs @ [?x]) k (line_search_loop n cd param s xp stpmin stpmax finit dgtest (count + 1)
       (stp * dec) (evs @ [?x]))"
      using "1.IH" [OF refl refl refl refl refl refl]
      by (simp add: sufficient_decrease_def trial_point_def not_le not_less)
    then obtain k where "ls_outcome n cd param s xp stpmin stpmax finit dgtest (count + 1) (stp * dec)
       (evs @ [?x]) k ?r" using rec by auto
    from ls_outcome_step [OF f this] show ?thesis ..
  qed
qed

lemma line_search_outcome:
  assumes "0 < stp" "vecdot gp s n \<le> 0"
  shows "\<exists>k. ls_outcome n cd param s xp stpmin stpmax f (f_dec_coeff param * vecdot gp s n) 0 stp []
            k (line_search_backtracking n x f g stp s xp gp stpmin stpmax cd param)"
  using assms line_search_loop_outcome [of n cd param s xp stpmin stpmax f
      "f_dec_coeff param * vecdot gp s n" 0 stp "[]"]
  by (simp add: line_search_backtracking_def Let_def not_less)





lemma trial_point_nth:
  "length (trial_point n xp s t) = n \<and> (\<forall>i<n. trial_point n xp s t ! i = xp ! i + t * s ! i)"
  by (simp add: trial_point_def vecadd_def veccpy_def)

lemma line_search_success:
  assumes r: "r = line_search_backtracking n x f g stp s xp gp stpmin stpmax cd param"
    and ok: "0 \<le> ls_ret r"
  shows "0 < ls_ret r \<and> ls_ret r = int (length (ls_evals r)) \<and>
         ls_ret r \<le> max 1 (max_linesearch param) \<and>
         length (ls_x r) = n \<and> (\<forall>i<n. ls_x r ! i = xp ! i + ls_stp r * s ! i) \<and>
         proc_evaluate cd (ls_x r) = (ls_f r, ls_g r) \<and>
         ls_f r \<le> f + f_dec_coeff param * ls_stp r * vecdot gp s n \<and>
         ls_stp r = stp * (1 / 2) ^ nat (ls_ret r - 1) \<and>
         (1 < ls_ret r \<longrightarrow> stpmin / 2 \<le> ls_stp r \<and> ls_stp r \<le> stpmax / 2)"
proof (intro conjI impI)
  have entry: "0 < stp \<and> vecdot gp s n \<le> 0"
  proof (rule ccontr)
    assume "\<not> (0 < stp \<and> vecdot gp s n \<le> 0)"
    then have "ls_ret r < 0"
      unfolding r by (auto simp: line_search_backtracking_def Let_def not_less status_defs)
    with ok show False by simp
  qed
  then obtain k where k: "ls_outcome n cd param s xp stpmin stpmax f
      (f_dec_coeff param * vecdot gp s n) 0 stp [] k r"
    unfolding r using line_search_outcome by blast
  let ?t = "stp * dec ^ k"
  from k ok have ret: "ls_ret r = int k + 1"
    and sd: "sufficient_decrease cd n xp s f (f_dec_coeff param * vecdot gp s n) ?t"
    by (auto simp: ls_outcome_def Let_def status_defs)
  from k have stp: "ls_stp r = ?t" and x: "ls_x r = trial_point n xp s ?t"
    and fg: "ls_f r = fst (proc_evaluate cd (ls_x r))" "ls_g r = snd (proc_evaluate cd (ls_x r))"
    and evs: "ls_evals r = map (\<lambda>i. trial_point n xp s (stp * dec ^ i)) [0..<Suc k]"
    and before: "\<forall>i<k. stpmin \<le> stp * dec ^ i \<and> stp * dec ^ i \<le> stpmax \<and>
        int i + 1 < max_linesearch param"
    by (simp_all add: ls_outcome_def Let_def)
  show "0 < ls_ret r" using ret by simp
  show "ls_ret r = int (length (ls_evals r))" using ret evs by simp
  show "ls_ret r \<le> max 1 (max_linesearch param)"
  proof (cases k)
    case 0
    then show ?thesis using ret by simp
  next
    case (Suc j)
    then have "int j + 1 < max_linesearch param" using before by simp
    then show ?thesis using ret Suc by simp
  qed
  show "length (ls_x r) = n" using x trial_point_nth by simp
  show "\<forall>i<n. ls_x r ! i = xp ! i + ls_stp r * s ! i" using x stp trial_point_nth by simp
  show "proc_evaluate cd (ls_x r) = (ls_f r, ls_g r)" using fg by simp
  show "ls_f r \<le> f + f_dec_coeff param * ls_stp r * vecdot gp s n"
    using sd fg x stp by (simp add: sufficient_decrease_def mult_ac)
  show "ls_stp r = stp * (1 / 2) ^ nat (ls_ret r - 1)" using stp ret by (simp add: dec_def)
  show "stpmin / 2 \<le> ls_stp r" if "1 < ls_ret r"
  proof -
    from that ret obtain j where j: "k = Suc j" by (cases k) auto
    then have "stpmin \<le> stp * dec ^ j" using before by simp
    then show ?thesis using stp j by (simp add: dec_def)
  qed
  show "ls_stp r \<le> stpmax / 2" if "1 < ls_ret r"
  proof -
    from that ret obtain j where j: "k = Suc j" by (cases k) auto
    then have "stp * dec ^ j \<le> stpmax" using before by simp
    then show ?thesis using stp j by (simp add: dec_def)
  qed
qed

subsection \<open>The line search over an arbitrary arithmetic\<close>

declare line_search_loop_fp.simps [simp del]

lemma halved_0 [simp]: "halved ar t 0 = t"
  by (simp add: halved_def)

lemma halved_Suc: "halved ar (fmul ar t (fhalf ar)) k = halved ar t (Suc k)"
  unfolding halved_def by (induction k) simp_all

lemma vecadd_fp_trial_point:
  "vecadd_fp ar (veccpy_fp xp n) s t n = trial_point_fp ar n xp s t"
  by (simp add: vecadd_fp_def veccpy_fp_def trial_point_fp_def)

lemma ls_outcome_fp_step:
  assumes "rejected ar evaluate n xp s finit dgtest stp" "\<not> flt ar stp stpmin"
    "\<not> fgt ar stp stpmax" "count + 1 < fp_max_linesearch param"
    "ls_outcome_fp ar n evaluate param s xp stpmin stpmax finit dgtest (count + 1)
       (fmul ar stp (fhalf ar)) (evs @ [trial_point_fp ar n xp s stp]) k r"
  shows "ls_outcome_fp ar n evaluate param s xp stpmin stpmax finit dgtest count stp evs (Suc k) r"
proof -
  let ?h = "fmul ar stp (fhalf ar)"
  have shift: "map (\<lambda>i. trial_point_fp ar n xp s (halved ar stp i)) [0..<Suc (Suc k)] =
      trial_point_fp ar n xp s stp # map (\<lambda>i. trial_point_fp ar n xp s (halved ar ?h i)) [0..<Suc k]"
    by (simp only: upt_conv_Cons [of 0 "Suc (Suc k)"] map_Suc_upt [symmetric] list.map map_map
        o_def halved_Suc) simp
  have all: "\<And>i. i < Suc k \<Longrightarrow> rejected ar evaluate n xp s finit dgtest (halved ar stp i) \<and>
                 \<not> flt ar (halved ar stp i) stpmin \<and> \<not> fgt ar (halved ar stp i) stpmax \<and>
                 count + int i + 1 < fp_max_linesearch param"
  proof -
    fix i assume i: "i < Suc k"
    show "rejected ar evaluate n xp s finit dgtest (halved ar stp i) \<and>
                 \<not> flt ar (halved ar stp i) stpmin \<and> \<not> fgt ar (halved ar stp i) stpmax \<and>
                 count + int i + 1 < fp_max_linesearch param"
    proof (cases i)
      case 0
      then show ?thesis using assms(1-4) by simp
    next
      case (Suc j)
      then have "j < k" using i by simp
      then show ?thesis using assms(5) Suc
        by (simp add: ls_outcome_fp_def Let_def halved_Suc)
    qed
  qed
  show ?thesis
    using assms(5) all unfolding ls_outcome_fp_def Let_def shift halved_Suc
    by (simp add: add.assoc)
qed

lemma line_search_loop_fp_outcome:
  "\<exists>k. ls_outcome_fp ar n evaluate param s xp stpmin stpmax finit dgtest count stp evs k
          (line_search_loop_fp ar n evaluate param s xp stpmin stpmax finit dgtest count stp evs)"
proof (induction ar n evaluate param s xp stpmin stpmax finit dgtest count stp evs
    rule: line_search_loop_fp.induct)
  case (1 ar n evaluate param s xp stpmin stpmax finit dgtest count stp evs)
  let ?x = "trial_point_fp ar n xp s stp"
  let ?r = "line_search_loop_fp ar n evaluate param s xp stpmin stpmax finit dgtest count stp evs"
  show ?case
  proof (cases "\<not> rejected ar evaluate n xp s finit dgtest stp \<or> flt ar stp stpmin \<or>
       fgt ar stp stpmax \<or> fp_max_linesearch param \<le> count + 1")
    case True
    then have "ls_outcome_fp ar n evaluate param s xp stpmin stpmax finit dgtest count stp evs 0 ?r"
      by (subst line_search_loop_fp.simps)
        (auto simp: ls_outcome_fp_def rejected_def vecadd_fp_trial_point Let_def)
    then show ?thesis ..
  next
    case False
    then have f: "rejected ar evaluate n xp s finit dgtest stp" "\<not> flt ar stp stpmin"
      "\<not> fgt ar stp stpmax" "count + 1 < fp_max_linesearch param" by auto
    have rec: "?r = line_search_loop_fp ar n evaluate param s xp stpmin stpmax finit dgtest
       (count + 1) (fmul ar stp (fhalf ar)) (evs @ [?x])"
      using f by (subst line_search_loop_fp.simps)
        (simp add: rejected_def vecadd_fp_trial_point Let_def not_le)
    from f have "\<exists>k. ls_outcome_fp ar n evaluate param s xp stpmin stpmax finit dgtest (count + 1)
       (fmul ar stp (fhalf ar)) (evs @ [?x]) k
       (line_search_loop_fp ar n evaluate param s xp stpmin stpmax finit dgtest (count + 1)
       (fmul ar stp (fhalf ar)) (evs @ [?x]))"
      using "1.IH" [OF refl refl refl refl refl refl]
      by (simp add: rejected_def vecadd_fp_trial_point not_le)
    then obtain k where "ls_outcome_fp ar n evaluate param s xp stpmin stpmax finit dgtest
       (count + 1) (fmul ar stp (fhalf ar)) (evs @ [?x]) k ?r" using rec by auto
    from ls_outcome_fp_step [OF f this] show ?thesis ..
  qed
qed

lemma line_search_fp_outcome:
  assumes "\<not> fle ar stp (fzero ar)" "\<not> flt ar (fzero ar) (vecdot_fp ar gp s n)"
  shows "\<exists>k. ls_outcome_fp ar n evaluate param s xp stpmin stpmax f
            (fmul ar (fp_f_dec_coeff param) (vecdot_fp ar gp s n)) 0 stp [] k
            (line_search_backtracking_fp ar n x f g stp s xp gp stpmin stpmax evaluate param)"
  using assms line_search_loop_fp_outcome [of ar n evaluate param s xp stpmin stpmax f
      "fmul ar (fp_f_dec_coeff param) (vecdot_fp ar gp s n)" 0 stp "[]"]
  by (simp add: line_search_backtracking_fp_def Let_def)

text \<open>
  At the exact arithmetic of \<^typ>\<open>real\<close> the generic search is the search of the model.
\<close>

lemma vecdot_fp_exact: "vecdot_fp real_arith x y n = vecdot x y n"
  by (simp add: vecdot_fp_def vecdot_def real_arith_def)

lemma line_search_loop_exact:
  "line_search_loop_fp real_arith n (proc_evaluate cd) (ls_param_fp_of param) s xp stpmin stpmax
     finit dgtest count stp evs =
   ls_result_fp_of (line_search_loop n cd param s xp stpmin stpmax finit dgtest count stp evs)"
proof (induction n cd param s xp stpmin stpmax finit dgtest count stp evs
    rule: line_search_loop.induct)
  case (1 n cd param s xp stpmin stpmax finit dgtest count stp evs)
  have v: "vecadd_fp real_arith (veccpy_fp xp n) s stp n = vecadd (veccpy xp n) s stp n"
    by (simp add: vecadd_fp_def veccpy_fp_def vecadd_def veccpy_def real_arith_def)
  have a: "fgt real_arith = (\<lambda>a b. a > b)" "flt real_arith = (<)" "fadd real_arith = (+)"
    "fmul real_arith = (*)" "fhalf real_arith = dec"
    "fp_max_linesearch (ls_param_fp_of param) = max_linesearch param"
    by (simp_all add: real_arith_def dec_def ls_param_fp_of_def)
  show ?case
    by (subst line_search_loop_fp.simps, subst line_search_loop.simps)
      (simp add: Let_def v a ls_result_fp_of_def "1.IH" [OF refl refl refl refl refl refl])
qed

lemma line_search_backtracking_exact:
  "line_search_backtracking_fp real_arith n x f g stp s xp gp stpmin stpmax (proc_evaluate cd)
     (ls_param_fp_of param) =
   ls_result_fp_of (line_search_backtracking n x f g stp s xp gp stpmin stpmax cd param)"
proof -
  have a: "fle real_arith = (\<le>)" "flt real_arith = (<)" "fzero real_arith = 0"
    "fmul real_arith = (*)" "fp_f_dec_coeff (ls_param_fp_of param) = f_dec_coeff param"
    by (simp_all add: real_arith_def ls_param_fp_of_def)
  show ?thesis
    by (simp add: line_search_backtracking_fp_def line_search_backtracking_def Let_def a
        vecdot_fp_exact line_search_loop_exact ls_result_fp_of_def)
qed

lemma trial_point_fp_nth:
  "length (trial_point_fp ar n xp s t) = n \<and>
   (\<forall>i<n. trial_point_fp ar n xp s t ! i = fadd ar (xp ! i) (fmul ar t (s ! i)))"
  by (simp add: trial_point_fp_def)

lemma line_search_fp_success:
  assumes r: "r = line_search_backtracking_fp ar n x f g stp s xp gp stpmin stpmax evaluate param"
    and dgtest: "dgtest = fmul ar (fp_f_dec_coeff param) (vecdot_fp ar gp s n)"
    and ok: "0 \<le> lsf_ret r"
  shows "0 < lsf_ret r \<and> lsf_ret r = int (length (lsf_evals r)) \<and>
         lsf_ret r \<le> max 1 (fp_max_linesearch param) \<and>
         length (lsf_x r) = n \<and>
         (\<forall>i<n. lsf_x r ! i = fadd ar (xp ! i) (fmul ar (lsf_stp r) (s ! i))) \<and>
         evaluate (lsf_x r) = (lsf_f r, lsf_g r) \<and>
         \<not> fgt ar (lsf_f r) (fadd ar f (fmul ar (lsf_stp r) dgtest)) \<and>
         lsf_stp r = halved ar stp (nat (lsf_ret r - 1)) \<and>
         (\<forall>j<nat (lsf_ret r - 1).
            rejected ar evaluate n xp s f dgtest (halved ar stp j) \<and>
            \<not> flt ar (halved ar stp j) stpmin \<and> \<not> fgt ar (halved ar stp j) stpmax)"
proof (intro conjI)
  have entry: "\<not> fle ar stp (fzero ar) \<and> \<not> flt ar (fzero ar) (vecdot_fp ar gp s n)"
  proof (rule ccontr)
    assume "\<not> (\<not> fle ar stp (fzero ar) \<and> \<not> flt ar (fzero ar) (vecdot_fp ar gp s n))"
    then have "lsf_ret r < 0"
      unfolding r by (auto simp: line_search_backtracking_fp_def Let_def status_defs)
    with ok show False by simp
  qed
  then have "\<exists>k. ls_outcome_fp ar n evaluate param s xp stpmin stpmax f dgtest 0 stp [] k r"
    unfolding r dgtest by (intro line_search_fp_outcome) simp_all
  then obtain k where k: "ls_outcome_fp ar n evaluate param s xp stpmin stpmax f dgtest 0 stp [] k r"
    by blast
  let ?t = "halved ar stp k"
  from k ok have ret: "lsf_ret r = int k + 1"
    and sd: "\<not> rejected ar evaluate n xp s f dgtest ?t"
    by (auto simp: ls_outcome_fp_def Let_def status_defs)
  from k have stp: "lsf_stp r = ?t" and x: "lsf_x r = trial_point_fp ar n xp s ?t"
    and fg: "lsf_f r = fst (evaluate (lsf_x r))" "lsf_g r = snd (evaluate (lsf_x r))"
    and evs: "lsf_evals r = map (\<lambda>i. trial_point_fp ar n xp s (halved ar stp i)) [0..<Suc k]"
    and before: "\<forall>i<k. rejected ar evaluate n xp s f dgtest (halved ar stp i) \<and>
        \<not> flt ar (halved ar stp i) stpmin \<and> \<not> fgt ar (halved ar stp i) stpmax \<and>
        int i + 1 < fp_max_linesearch param"
    by (simp_all add: ls_outcome_fp_def Let_def)
  show "0 < lsf_ret r" using ret by simp
  show "lsf_ret r = int (length (lsf_evals r))" using ret evs by simp
  show "lsf_ret r \<le> max 1 (fp_max_linesearch param)"
  proof (cases k)
    case 0
    then show ?thesis using ret by simp
  next
    case (Suc j)
    then have "int j + 1 < fp_max_linesearch param" using before by simp
    then show ?thesis using ret Suc by simp
  qed
  show "length (lsf_x r) = n" using x trial_point_fp_nth [of ar n xp s ?t] by simp
  show "\<forall>i<n. lsf_x r ! i = fadd ar (xp ! i) (fmul ar (lsf_stp r) (s ! i))"
    using x stp trial_point_fp_nth [of ar n xp s ?t] by simp
  show "evaluate (lsf_x r) = (lsf_f r, lsf_g r)" using fg by simp
  show "\<not> fgt ar (lsf_f r) (fadd ar f (fmul ar (lsf_stp r) dgtest))"
    using sd fg x stp by (simp add: rejected_def)
  show "lsf_stp r = halved ar stp (nat (lsf_ret r - 1))" using stp ret by simp
  show "\<forall>j<nat (lsf_ret r - 1).
            rejected ar evaluate n xp s f dgtest (halved ar stp j) \<and>
            \<not> flt ar (halved ar stp j) stpmin \<and> \<not> fgt ar (halved ar stp j) stpmax"
    using before ret by simp
qed

text \<open>
  Claim C3 (as amended).  The statement is about the search in any arithmetic \<open>ar\<close>, that of
  the doubles included.  A successful line search returns the positive number of evaluator
  calls it made (at most \<open>max_linesearch\<close>, and \<open>1\<close> when that is not positive); \<open>x\<close> is
  \<open>xp + stp\<cdot>s\<close> componentwise and \<open>f\<close>, \<open>g\<close> are the evaluator's values there; the accepted
  point passed the test of the code, that is, \<^verbatim>\<open>f > finit + stp * dgtest\<close> with
  \<open>dgtest = c1\<cdot>(gp\<cdot>s)\<close> and \<open>finit\<close> the objective value passed in came out false as the
  code evaluates it; the accepted step is the entry step multiplied \<open>count - 1\<close> times by
  \<open>0.5\<close>; each of the earlier trials was rejected with a step that was neither below
  \<open>stpmin\<close> nor above \<open>stpmax\<close>, the bounds being tested on rejected trials only.  Every
  search that passes the entry checks follows \<open>ls_outcome_fp\<close>: rejected trials halve the step
  until a trial is accepted, a rejected step is below \<open>stpmin\<close> or above \<open>stpmax\<close>, or the
  trial count reaches \<open>max_linesearch\<close>.  In exact arithmetic the test is the inequality
  \<open>f \<le> finit + c1\<cdot>stp\<cdot>(gp\<cdot>s)\<close> (\<open>line_search_success\<close> above); in double arithmetic it is
  not: the right-hand side is rounded, and a trial whose objective value is a NaN is
  accepted (\<open>line_search_nan_accepted\<close> below).
\<close>

theorem line_search_contract:
  assumes r: "r = line_search_backtracking_fp ar n x f g stp s xp gp stpmin stpmax evaluate param"
    and dgtest: "dgtest = fmul ar (fp_f_dec_coeff param) (vecdot_fp ar gp s n)"
  shows "(0 \<le> lsf_ret r \<longrightarrow>
            0 < lsf_ret r \<and> lsf_ret r = int (length (lsf_evals r)) \<and>
            lsf_ret r \<le> max 1 (fp_max_linesearch param) \<and>
            length (lsf_x r) = n \<and>
            (\<forall>i<n. lsf_x r ! i = fadd ar (xp ! i) (fmul ar (lsf_stp r) (s ! i))) \<and>
            evaluate (lsf_x r) = (lsf_f r, lsf_g r) \<and>
            \<not> fgt ar (lsf_f r) (fadd ar f (fmul ar (lsf_stp r) dgtest)) \<and>
            lsf_stp r = halved ar stp (nat (lsf_ret r - 1)) \<and>
            (\<forall>j<nat (lsf_ret r - 1).
               rejected ar evaluate n xp s f dgtest (halved ar stp j) \<and>
               \<not> flt ar (halved ar stp j) stpmin \<and> \<not> fgt ar (halved ar stp j) stpmax)) \<and>
         (\<not> fle ar stp (fzero ar) \<and> \<not> flt ar (fzero ar) (vecdot_fp ar gp s n) \<longrightarrow>
            (\<exists>k. ls_outcome_fp ar n evaluate param s xp stpmin stpmax f dgtest 0 stp [] k r))"
proof (intro conjI impI)
  assume "\<not> fle ar stp (fzero ar) \<and> \<not> flt ar (fzero ar) (vecdot_fp ar gp s n)"
  then show "\<exists>k. ls_outcome_fp ar n evaluate param s xp stpmin stpmax f dgtest 0 stp [] k r"
    unfolding r dgtest by (intro line_search_fp_outcome) simp_all
qed (use line_search_fp_success [OF r dgtest] in blast)+

lemmas ls_fp_eval = line_search_backtracking_fp_def line_search_loop_fp.simps vecadd_fp_def
  veccpy_fp_def vecdot_fp_def Let_def real_arith_def ls_param_default_def eval_sq_def

lemma ls_fp_example_retry:
  "line_search_backtracking_fp real_arith 1 [2] 4 [4] 1 [- 4] [2] [4] 0 1 eval_sq
     ls_param_default =
     \<lparr>lsf_ret = 2, lsf_x = [0], lsf_f = 0, lsf_g = [0], lsf_stp = 1 / 2,
      lsf_evals = [[- 2], [0]]\<rparr>"
  by (simp add: ls_fp_eval status_defs)

theorem line_search_contract_witness:
  "0 \<le> lsf_ret (line_search_backtracking_fp real_arith 1 [2] 4 [4] 1 [- 4] [2] [4] 0 1 eval_sq
      ls_param_default) \<and>
   0 < nat (lsf_ret (line_search_backtracking_fp real_arith 1 [2] 4 [4] 1 [- 4] [2] [4] 0 1
      eval_sq ls_param_default) - 1) \<and>
   rejected real_arith eval_sq 1 [2] [- 4] 4
     (fmul real_arith (fp_f_dec_coeff ls_param_default) (vecdot_fp real_arith [4] [- 4] 1))
     (halved real_arith 1 0) \<and>
   \<not> fle real_arith 1 (fzero real_arith) \<and>
   \<not> flt real_arith (fzero real_arith) (vecdot_fp real_arith [4] [- 4] 1) \<and>
   (\<exists>k. ls_outcome_fp real_arith 1 eval_sq ls_param_default [- 4] [2] 0 1 4
          (fmul real_arith (fp_f_dec_coeff ls_param_default) (vecdot_fp real_arith [4] [- 4] 1))
          0 1 [] k
          (line_search_backtracking_fp real_arith 1 [2] 4 [4] 1 [- 4] [2] [4] 0 1 eval_sq
             ls_param_default))"
proof -
  let ?r = "line_search_backtracking_fp real_arith 1 [2] 4 [4] 1 [- 4] [2] [4] 0 1 eval_sq
      ls_param_default"
  have h: "0 \<le> lsf_ret ?r" "0 < nat (lsf_ret ?r - 1)"
    unfolding ls_fp_example_retry by simp_all
  have e: "\<not> fle real_arith 1 (fzero real_arith) \<and>
      \<not> flt real_arith (fzero real_arith) (vecdot_fp real_arith [4] [- 4] 1)"
    by (simp add: vecdot_fp_def real_arith_def)
  note t = line_search_contract [OF refl refl, of real_arith 1 "[2]" 4 "[4]" 1 "[- 4]" "[2]" "[4]"
      0 1 eval_sq ls_param_default]
  from t h have "rejected real_arith eval_sq 1 [2] [- 4] 4
     (fmul real_arith (fp_f_dec_coeff ls_param_default) (vecdot_fp real_arith [4] [- 4] 1))
     (halved real_arith 1 0)" by blast
  moreover from t e have "\<exists>k. ls_outcome_fp real_arith 1 eval_sq ls_param_default [- 4] [2] 0 1 4
          (fmul real_arith (fp_f_dec_coeff ls_param_default) (vecdot_fp real_arith [4] [- 4] 1))
          0 1 [] k ?r"
    by blast
  ultimately show ?thesis using h e by blast
qed

text \<open>
  The accepted step need not lie in \<open>[stpmin, stpmax]\<close>: a first trial that passes the test
  is accepted before the bounds are looked at.  The arguments are those of the first
  iteration of a run on \<open>f(x) = x\<^sup>2\<close> from \<open>x = 2\<close> with \<open>max_step = 1/8\<close>; the test compares
  \<open>1\<close> with \<open>4 - 0.0004\<close>.
\<close>

theorem line_search_step_bound_counterexample:
  "line_search_backtracking_fp real_arith 1 [2] 4 [4] (1 / 4) [- 4] [2] [4] 0 (1 / 8) eval_sq
     ls_param_default =
     \<lparr>lsf_ret = 1, lsf_x = [1], lsf_f = 1, lsf_g = [2], lsf_stp = 1 / 4, lsf_evals = [[1]]\<rparr> \<and>
   \<not> (1 / 4 \<le> (1 / 8 :: real))"
  by (simp add: ls_fp_eval status_defs)

text \<open>
  With a NaN in the arithmetic, a trial whose objective value is a NaN is accepted at
  once: the comparison of the test is false.
\<close>

lemma line_search_nan_accepted:
  "line_search_backtracking_fp nan_arith 1 [Some 2] (Some 4) [Some 4] (Some 1) [Some (- 4)]
     [Some 2] [Some 4] (Some 0) (Some 1) eval_nan ls_param_nan =
     \<lparr>lsf_ret = 1, lsf_x = [Some (- 2)], lsf_f = None, lsf_g = [None], lsf_stp = Some 1,
      lsf_evals = [[Some (- 2)]]\<rparr>"
  by (simp add: line_search_backtracking_fp_def line_search_loop_fp.simps vecadd_fp_def
      veccpy_fp_def vecdot_fp_def Let_def nan_arith_def nan_lift2_def nan_cmp_def eval_nan_def
      ls_param_nan_def status_defs)

subsection \<open>The driver\<close>

lemma apply_stepbound_fields [simp]:
  "st_x (snd (apply_stepbound cd param st)) = st_x st"
  "st_g (snd (apply_stepbound cd param st)) = st_g st"
  "st_fx (snd (apply_stepbound cd param st)) = st_fx st"
  "st_d (snd (apply_stepbound cd param st)) = st_d st"
  "st_k (snd (apply_stepbound cd param st)) = st_k st"
  "st_end (snd (apply_stepbound cd param st)) = st_end st"
  "st_lm (snd (apply_stepbound cd param st)) = st_lm st"
  "st_pf (snd (apply_stepbound cd param st)) = st_pf st"
  "st_evals (snd (apply_stepbound cd param st)) = st_evals st"
  "st_progress_calls (snd (apply_stepbound cd param st)) = st_progress_calls st"
  by (simp_all add: apply_stepbound_def Let_def split: option.split)

lemma report_progress_eq:
  "report_progress cd (vec2norm (ls_x (iteration_search n cd param st)) n)
     (vec2norm (ls_g (iteration_search n cd param st)) n)
     (ls_ret (iteration_search n cd param st)) (searched_state n cd param st) =
   (progress_ret n cd param st, reported_state n cd param st)"
  by (simp add: report_progress_def progress_ret_def reported_state_def iteration_report_def
      searched_state_def Let_def split: option.split)

lemma lbfgs_iteration_phases:
  "lbfgs_iteration n m cd param st =
     (if ls_ret (iteration_search n cd param st) < 0 then
        Done (ls_ret (iteration_search n cd param st))
          ((searched_state n cd param st)
             \<lparr>st_x := veccpy (veccpy (st_x st) n) n, st_g := veccpy (veccpy (st_g st) n) n\<rparr>)
      else if progress_ret n cd param st \<noteq> 0 then
        Done (progress_ret n cd param st) (reported_state n cd param st)
      else
        lbfgs_tests n m param (vec2norm (ls_x (iteration_search n cd param st)) n)
          (vec2norm (ls_g (iteration_search n cd param st)) n) (reported_state n cd param st))"
proof -
  have "lbfgs_iteration n m cd param st =
     (if ls_ret (iteration_search n cd param st) < 0 then
        Done (ls_ret (iteration_search n cd param st))
          ((searched_state n cd param st)
             \<lparr>st_x := veccpy (veccpy (st_x st) n) n, st_g := veccpy (veccpy (st_g st) n) n\<rparr>)
      else
        let pr = report_progress cd (vec2norm (ls_x (iteration_search n cd param st)) n)
               (vec2norm (ls_g (iteration_search n cd param st)) n)
               (ls_ret (iteration_search n cd param st)) (searched_state n cd param st)
        in if fst pr \<noteq> 0 then Done (fst pr) (snd pr)
           else lbfgs_tests n m param (vec2norm (ls_x (iteration_search n cd param st)) n)
                  (vec2norm (ls_g (iteration_search n cd param st)) n) (snd pr))"
    by (simp add: lbfgs_iteration_def iteration_search_def searched_state_def Let_def)
  then show ?thesis by (simp add: report_progress_eq Let_def)
qed

lemma lbfgs_iterate_loop:
  "lbfgs_iterate i n m cd param st = Some st' \<Longrightarrow>
   lbfgs_loop n m cd param st = lbfgs_loop n m cd param st'"
proof (induction i arbitrary: st)
  case 0
  then show ?case by simp
next
  case (Suc i)
  then show ?case
    by (subst lbfgs_loop.simps) (auto split: step_result.splits)
qed

lemma lbfgs_iterate_Suc:
  "lbfgs_iterate (Suc i) n m cd param st = Some st'' \<longleftrightarrow>
   (\<exists>st'. lbfgs_iterate i n m cd param st = Some st' \<and>
          lbfgs_iteration n m cd param st' = Continue st'')"
proof (induction i arbitrary: st)
  case 0
  then show ?case by (auto split: step_result.splits)
next
  case (Suc i)
  show ?case
  proof (cases "lbfgs_iteration n m cd param st")
    case (Done ret s)
    then show ?thesis by simp
  next
    case (Continue s)
    then show ?thesis using Suc.IH [of s] by simp
  qed
qed

lemma lbfgs_optimize_loop:
  assumes "check_parameters n (effective_param param_opt) = None"
    "\<not> norm_test (nat n) (effective_param param_opt) x (snd (evaluate x))"
  shows "lbfgs_optimize n x ptr_fx evaluate stepbound progress param_opt =
     map_option (lbfgs_exit ptr_fx)
       (lbfgs_loop (nat n) (mem_size (effective_param param_opt))
          (lbfgs_cd n evaluate stepbound progress) (effective_param param_opt)
          (lbfgs_entry (nat n) (mem_size (effective_param param_opt))
             (lbfgs_cd n evaluate stepbound progress) (effective_param param_opt) x))"
proof -
  have "\<not> vec2norm (snd (evaluate x)) (nat n) /
      (if vec2norm x (nat n) < 1 then 1 else vec2norm x (nat n))
      \<le> g_epsilon (effective_param param_opt)"
    using assms(2) by (simp add: norm_test_def Let_def)
  then show ?thesis
    using assms(1)
    by (simp add: lbfgs_optimize_def effective_param_def lbfgs_cd_def lbfgs_entry_def
        lbfgs_init_def Let_def del: if_split cong: if_cong)
qed

lemma lbfgs_optimize_reaches:
  assumes "reaches n x evaluate stepbound progress param_opt i st"
    "lbfgs_iteration (nat n) (mem_size (effective_param param_opt))
       (lbfgs_cd n evaluate stepbound progress) (effective_param param_opt) st = Done ret st'"
  shows "lbfgs_optimize n x ptr_fx evaluate stepbound progress param_opt =
     Some (lbfgs_exit ptr_fx (ret, st'))"
proof -
  let ?p = "effective_param param_opt" and ?cd = "lbfgs_cd n evaluate stepbound progress"
  from assms(1) have c: "check_parameters n ?p = None"
    "\<not> norm_test (nat n) ?p x (snd (evaluate x))"
    and it: "lbfgs_iterate i (nat n) (mem_size ?p) ?cd ?p
       (lbfgs_entry (nat n) (mem_size ?p) ?cd ?p x) = Some st"
    by (simp_all add: reaches_def Let_def)
  have "lbfgs_loop (nat n) (mem_size ?p) ?cd ?p (lbfgs_entry (nat n) (mem_size ?p) ?cd ?p x) =
      lbfgs_loop (nat n) (mem_size ?p) ?cd ?p st"
    by (rule lbfgs_iterate_loop [OF it])
  also have "\<dots> = Some (ret, st')"
    using assms(2) by (subst lbfgs_loop.simps) simp
  finally show ?thesis
    using c lbfgs_optimize_loop [of n param_opt x evaluate ptr_fx stepbound progress] by simp
qed

lemma first_loop_length [simp]:
  "length (fst (snd (first_loop b n m j lm d))) = length lm"
  by (induction b arbitrary: j lm d) (simp_all add: Let_def)

lemma update_direction_fields [simp]:
  "st_x (update_direction n m st) = st_x st"
  "st_g (update_direction n m st) = st_g st"
  "st_xp (update_direction n m st) = st_xp st"
  "st_gp (update_direction n m st) = st_gp st"
  "st_fx (update_direction n m st) = st_fx st"
  "st_pf (update_direction n m st) = st_pf st"
  "st_evals (update_direction n m st) = st_evals st"
  "st_stepbound_calls (update_direction n m st) = st_stepbound_calls st"
  "st_progress_calls (update_direction n m st) = st_progress_calls st"
  "st_k (update_direction n m st) = st_k st + 1"
  "st_end (update_direction n m st) = (st_end st + 1) mod m"
  "st_step (update_direction n m st) = 1"
  "length (st_lm (update_direction n m st)) = length (st_lm st)"
  by (simp_all add: update_direction_def Let_def)

lemma searched_state_fields [simp]:
  "st_x (searched_state n cd param st) = ls_x (iteration_search n cd param st)"
  "st_g (searched_state n cd param st) = ls_g (iteration_search n cd param st)"
  "st_fx (searched_state n cd param st) = ls_f (iteration_search n cd param st)"
  "st_step (searched_state n cd param st) = ls_stp (iteration_search n cd param st)"
  "st_xp (searched_state n cd param st) = veccpy (st_x st) n"
  "st_gp (searched_state n cd param st) = veccpy (st_g st) n"
  "st_d (searched_state n cd param st) = st_d st"
  "st_k (searched_state n cd param st) = st_k st"
  "st_end (searched_state n cd param st) = st_end st"
  "st_lm (searched_state n cd param st) = st_lm st"
  "st_pf (searched_state n cd param st) = st_pf st"
  "st_evals (searched_state n cd param st) =
     st_evals st @ ls_evals (iteration_search n cd param st)"
  "st_progress_calls (searched_state n cd param st) = st_progress_calls st"
  by (simp_all add: searched_state_def Let_def)

lemma reported_state_fields [simp]:
  "st_x (reported_state n cd param st) = ls_x (iteration_search n cd param st)"
  "st_g (reported_state n cd param st) = ls_g (iteration_search n cd param st)"
  "st_fx (reported_state n cd param st) = ls_f (iteration_search n cd param st)"
  "st_step (reported_state n cd param st) = ls_stp (iteration_search n cd param st)"
  "st_xp (reported_state n cd param st) = veccpy (st_x st) n"
  "st_gp (reported_state n cd param st) = veccpy (st_g st) n"
  "st_d (reported_state n cd param st) = st_d st"
  "st_k (reported_state n cd param st) = st_k st"
  "st_end (reported_state n cd param st) = st_end st"
  "st_lm (reported_state n cd param st) = st_lm st"
  "st_pf (reported_state n cd param st) = st_pf st"
  "st_evals (reported_state n cd param st) =
     st_evals st @ ls_evals (iteration_search n cd param st)"
  "st_progress_calls (reported_state n cd param st) =
     (case proc_progress cd of None \<Rightarrow> st_progress_calls st
      | Some pg \<Rightarrow> st_progress_calls st @ [iteration_report n cd param st])"
  by (simp_all add: reported_state_def Let_def split: option.split)

lemma lbfgs_tests_cases:
  "lbfgs_tests n m param xnorm gnorm st =
     (if gnorm / (if xnorm < 1 then 1 else xnorm) \<le> g_epsilon param then Done LBFGS_CONVERGENCE st
      else if \<exists>pf. st_pf st = Some pf \<and> stagnation_stop param pf (st_k st) (st_fx st)
        then Done LBFGS_STOP st
      else if max_iterations param \<noteq> 0 \<and> max_iterations param < st_k st + 1
        then Done LBFGSERR_MAXIMUMITERATION (stored_state param st)
      else Continue (update_direction n m (stored_state param st)))"
  by (simp add: lbfgs_tests_def stored_state_def Let_def split: option.split)

lemma lbfgs_iteration_Continue:
  assumes "lbfgs_iteration n m cd param st = Continue st'"
  shows "0 \<le> ls_ret (iteration_search n cd param st)"
    and "progress_ret n cd param st = 0"
    and "\<not> norm_test n param (ls_x (iteration_search n cd param st))
            (ls_g (iteration_search n cd param st))"
    and "\<not> (\<exists>pf. st_pf st = Some pf \<and>
            stagnation_stop param pf (st_k st) (ls_f (iteration_search n cd param st)))"
    and "\<not> (max_iterations param \<noteq> 0 \<and> max_iterations param < st_k st + 1)"
    and "st' = update_direction n m (stored_state param (reported_state n cd param st))"
  using assms
  by (simp_all add: lbfgs_iteration_phases lbfgs_tests_cases norm_test_def Let_def
      split: if_splits)

lemma reaches_0:
  "reaches n x evaluate stepbound progress param_opt 0 st \<longleftrightarrow>
   check_parameters n (effective_param param_opt) = None \<and>
   \<not> norm_test (nat n) (effective_param param_opt) x (snd (evaluate x)) \<and>
   st = lbfgs_entry (nat n) (mem_size (effective_param param_opt))
          (lbfgs_cd n evaluate stepbound progress) (effective_param param_opt) x"
  by (auto simp: reaches_def Let_def)

lemma reaches_Suc:
  "reaches n x evaluate stepbound progress param_opt (Suc i) st' \<longleftrightarrow>
   (\<exists>st. reaches n x evaluate stepbound progress param_opt i st \<and>
      lbfgs_iteration (nat n) (mem_size (effective_param param_opt))
        (lbfgs_cd n evaluate stepbound progress) (effective_param param_opt) st = Continue st')"
  unfolding reaches_def Let_def lbfgs_iterate_Suc by blast

lemma reaches_invariant:
  assumes "reaches n x evaluate stepbound progress param_opt i st"
    and "P 0 (lbfgs_entry (nat n) (mem_size (effective_param param_opt))
          (lbfgs_cd n evaluate stepbound progress) (effective_param param_opt) x)"
    and "\<And>j s s'. P j s \<Longrightarrow> reaches n x evaluate stepbound progress param_opt j s \<Longrightarrow>
          lbfgs_iteration (nat n) (mem_size (effective_param param_opt))
            (lbfgs_cd n evaluate stepbound progress) (effective_param param_opt) s = Continue s'
          \<Longrightarrow> P (Suc j) s'"
  shows "P i st"
  using assms(1)
proof (induction i arbitrary: st)
  case 0
  then show ?case using assms(2) by (simp add: reaches_0)
next
  case (Suc i)
  then obtain s where s: "reaches n x evaluate stepbound progress param_opt i s"
    "lbfgs_iteration (nat n) (mem_size (effective_param param_opt))
        (lbfgs_cd n evaluate stepbound progress) (effective_param param_opt) s = Continue st"
    unfolding reaches_Suc by blast
  from assms(3) [OF Suc.IH [OF s(1)] s(1) s(2)] show ?case .
qed

lemma stored_state_fields [simp]:
  "st_x (stored_state param st) = st_x st"
  "st_g (stored_state param st) = st_g st"
  "st_xp (stored_state param st) = st_xp st"
  "st_gp (stored_state param st) = st_gp st"
  "st_fx (stored_state param st) = st_fx st"
  "st_d (stored_state param st) = st_d st"
  "st_step (stored_state param st) = st_step st"
  "st_k (stored_state param st) = st_k st"
  "st_end (stored_state param st) = st_end st"
  "st_lm (stored_state param st) = st_lm st"
  "st_evals (stored_state param st) = st_evals st"
  "st_stepbound_calls (stored_state param st) = st_stepbound_calls st"
  "st_progress_calls (stored_state param st) = st_progress_calls st"
  "st_pf (stored_state param st) =
     map_option (\<lambda>pf. pf[nat (st_k st mod past param) := st_fx st]) (st_pf st)"
  by (simp_all add: stored_state_def split: option.split)

lemma lbfgs_entry_fields [simp]:
  "st_x (lbfgs_entry n m cd param x) = x"
  "st_g (lbfgs_entry n m cd param x) = snd (proc_evaluate cd x)"
  "st_fx (lbfgs_entry n m cd param x) = fst (proc_evaluate cd x)"
  "st_xp (lbfgs_entry n m cd param x) = replicate n 0"
  "st_gp (lbfgs_entry n m cd param x) = replicate n 0"
  "st_d (lbfgs_entry n m cd param x) = vecncpy (snd (proc_evaluate cd x)) n"
  "st_step (lbfgs_entry n m cd param x) = vec2norminv (vecncpy (snd (proc_evaluate cd x)) n) n"
  "st_k (lbfgs_entry n m cd param x) = 1"
  "st_end (lbfgs_entry n m cd param x) = 0"
  "length (st_lm (lbfgs_entry n m cd param x)) = nat m"
  "st_pf (lbfgs_entry n m cd param x) =
     (if 0 < past param then Some ((replicate (nat (past param)) 0)[0 := fst (proc_evaluate cd x)])
      else None)"
  "st_evals (lbfgs_entry n m cd param x) = [x]"
  "st_stepbound_calls (lbfgs_entry n m cd param x) = []"
  "st_progress_calls (lbfgs_entry n m cd param x) = []"
  by (simp_all add: lbfgs_entry_def lbfgs_init_def Let_def)

lemma lbfgs_cd_fields [simp]:
  "cd_n (lbfgs_cd n evaluate stepbound progress) = n"
  "proc_evaluate (lbfgs_cd n evaluate stepbound progress) = evaluate"
  "proc_stepbound (lbfgs_cd n evaluate stepbound progress) = stepbound"
  "proc_progress (lbfgs_cd n evaluate stepbound progress) = progress"
  by (simp_all add: lbfgs_cd_def)

lemma reaches_k:
  assumes "reaches n x evaluate stepbound progress param_opt i st"
  shows "st_k st = int i + 1"
  by (rule reaches_invariant [OF assms, where P = "\<lambda>i st. st_k st = int i + 1"])
    (auto dest!: lbfgs_iteration_Continue(6))

lemma iteration_search_eq:
  "iteration_search n cd param st =
     line_search_backtracking n (st_x st) (st_fx st) (st_g st) (iteration_step cd param st)
       (st_d st) (veccpy (st_x st) n) (veccpy (st_g st) n) (min_step param)
       (iteration_step_max cd param st) cd param"
  by (simp add: iteration_search_def iteration_step_def iteration_step_max_def Let_def)

lemma veccpy_veccpy [simp]: "veccpy (veccpy x n) n = veccpy x n"
  by (simp add: veccpy_def)

lemma veccpy_length [simp]: "length x = n \<Longrightarrow> veccpy x n = x"
  by (simp add: veccpy_def)

lemma trial_point_veccpy [simp]: "trial_point n (veccpy xp n) s t = trial_point n xp s t"
  by (simp add: trial_point_def)

lemma iteration_search_success:
  assumes "0 \<le> ls_ret (iteration_search n cd param st)"
  shows "proc_evaluate cd (ls_x (iteration_search n cd param st)) =
           (ls_f (iteration_search n cd param st), ls_g (iteration_search n cd param st))"
    and "length (ls_x (iteration_search n cd param st)) = n"
    and "0 < ls_ret (iteration_search n cd param st)"
    and "ls_evals (iteration_search n cd param st) \<noteq> []"
  using line_search_success [OF iteration_search_eq assms] by auto


lemma lbfgs_iteration_Done:
  assumes "lbfgs_iteration n m cd param st = Done ret st'"
  shows "ls_ret (iteration_search n cd param st) < 0 \<and>
           ret = ls_ret (iteration_search n cd param st) \<and>
           st' = (searched_state n cd param st)
                   \<lparr>st_x := veccpy (st_x st) n, st_g := veccpy (st_g st) n\<rparr> \<or>
         0 \<le> ls_ret (iteration_search n cd param st) \<and> progress_ret n cd param st \<noteq> 0 \<and>
           ret = progress_ret n cd param st \<and> st' = reported_state n cd param st \<or>
         0 \<le> ls_ret (iteration_search n cd param st) \<and> progress_ret n cd param st = 0 \<and>
           ret = LBFGS_CONVERGENCE \<and> st' = reported_state n cd param st \<or>
         0 \<le> ls_ret (iteration_search n cd param st) \<and> progress_ret n cd param st = 0 \<and>
           ret = LBFGS_STOP \<and> st' = reported_state n cd param st \<or>
         0 \<le> ls_ret (iteration_search n cd param st) \<and> progress_ret n cd param st = 0 \<and>
           ret = LBFGSERR_MAXIMUMITERATION \<and>
           st' = stored_state param (reported_state n cd param st)"
  using assms
  by (simp add: lbfgs_iteration_phases lbfgs_tests_cases Let_def split: if_splits)

lemma reaches_evaluated:
  assumes "reaches n x evaluate stepbound progress param_opt i st"
  shows "evaluate (st_x st) = (st_fx st, st_g st)"
proof (rule reaches_invariant [OF assms, where P = "\<lambda>i st. evaluate (st_x st) = (st_fx st, st_g st)"])
  fix j s s'
  assume "lbfgs_iteration (nat n) (mem_size (effective_param param_opt))
            (lbfgs_cd n evaluate stepbound progress) (effective_param param_opt) s = Continue s'"
  from lbfgs_iteration_Continue(1,6) [OF this]
  show "evaluate (st_x s') = (st_fx s', st_g s')"
    using iteration_search_success(1) [of "nat n" "lbfgs_cd n evaluate stepbound progress"
        "effective_param param_opt" s]
    by simp
qed simp

lemma reaches_length_x:
  assumes "reaches n x evaluate stepbound progress param_opt i st" "length x = nat n"
  shows "length (st_x st) = nat n"
proof (rule reaches_invariant [OF assms(1), where P = "\<lambda>i st. length (st_x st) = nat n"])
  fix j s s'
  assume "lbfgs_iteration (nat n) (mem_size (effective_param param_opt))
            (lbfgs_cd n evaluate stepbound progress) (effective_param param_opt) s = Continue s'"
  from lbfgs_iteration_Continue(1,6) [OF this]
  show "length (st_x s') = nat n"
    using iteration_search_success(2) [of "nat n" "lbfgs_cd n evaluate stepbound progress"
        "effective_param param_opt" s]
    by simp
qed (simp add: assms(2))

lemma reaches_evals:
  assumes "reaches n x evaluate stepbound progress param_opt i st"
  shows "st_evals st \<noteq> []"
  by (rule reaches_invariant [OF assms, where P = "\<lambda>i st. st_evals st \<noteq> []"])
    (auto dest!: lbfgs_iteration_Continue(6))

lemma reaches_progress_calls:
  assumes "reaches n x evaluate stepbound progress param_opt i st"
  shows "map pa_k (st_progress_calls st) = (if progress = None then [] else map int [1..<Suc i])"
proof (rule reaches_invariant [OF assms, where P = "\<lambda>i st. map pa_k (st_progress_calls st) =
    (if progress = None then [] else map int [1..<Suc i])"])
  fix j s s'
  assume P: "map pa_k (st_progress_calls s) = (if progress = None then [] else map int [1..<Suc j])"
    and r: "reaches n x evaluate stepbound progress param_opt j s"
    and c: "lbfgs_iteration (nat n) (mem_size (effective_param param_opt))
            (lbfgs_cd n evaluate stepbound progress) (effective_param param_opt) s = Continue s'"
  from reaches_k [OF r] have k: "st_k s = int j + 1" .
  from lbfgs_iteration_Continue(6) [OF c] P k
  show "map pa_k (st_progress_calls s') = (if progress = None then [] else map int [1..<Suc (Suc j)])"
    by (auto simp: iteration_report_def Let_def split: option.splits)
qed simp




lemmas run_eval = lbfgs_optimize_def check_parameters_def lbfgs_init_def lbfgs_loop.simps
  lbfgs_iteration_def apply_stepbound_def report_progress_def lbfgs_tests_def stagnation_stop_def
  update_direction_def lbfgs_exit_def ls_eval real_sqrt_divide

text \<open>
  Claim C4.  In every iteration whose line search returns a negative status, the iteration
  ends the loop with exactly that status and with \<open>x\<close> and \<open>g\<close> copied back from the
  snapshot \<open>(xp, gp)\<close> taken just before the search, that is, with the values they had on
  entry to the iteration; \<^verbatim>\<open>lbfgs_optimize\<close> terminates and returns that status and that
  \<open>x\<close>.  The state \<open>st\<close> is any state in which a run enters an iteration.
\<close>

theorem line_search_failure_restores:
  assumes cd: "cd = lbfgs_cd n evaluate stepbound progress"
    and param: "param = effective_param param_opt"
    and reach: "reaches n x evaluate stepbound progress param_opt i st"
    and r: "r = iteration_search (nat n) cd param st"
    and fail: "ls_ret r < 0"
  shows "\<exists>st'. lbfgs_iteration (nat n) (mem_size param) cd param st = Done (ls_ret r) st' \<and>
           st_x st' = veccpy (st_x st) (nat n) \<and> st_g st' = veccpy (st_g st) (nat n) \<and>
           st_xp st' = veccpy (st_x st) (nat n) \<and> st_gp st' = veccpy (st_g st) (nat n) \<and>
           (length x = nat n \<longrightarrow> st_x st' = st_x st) \<and>
           (length (st_g st) = nat n \<longrightarrow> st_g st' = st_g st) \<and>
           lbfgs_optimize n x ptr_fx evaluate stepbound progress param_opt =
             Some (lbfgs_exit ptr_fx (ls_ret r, st')) \<and>
           res_ret (lbfgs_exit ptr_fx (ls_ret r, st')) = ls_ret r \<and>
           res_x (lbfgs_exit ptr_fx (ls_ret r, st')) = st_x st'"
proof -
  let ?st' = "(searched_state (nat n) cd param st)
                \<lparr>st_x := veccpy (st_x st) (nat n), st_g := veccpy (st_g st) (nat n)\<rparr>"
  have it: "lbfgs_iteration (nat n) (mem_size param) cd param st = Done (ls_ret r) ?st'"
    using fail by (simp add: lbfgs_iteration_phases r)
  have opt: "lbfgs_optimize n x ptr_fx evaluate stepbound progress param_opt =
      Some (lbfgs_exit ptr_fx (ls_ret r, ?st'))"
    using lbfgs_optimize_reaches [OF reach] it unfolding cd param by blast
  have len: "length x = nat n \<longrightarrow> veccpy (st_x st) (nat n) = st_x st"
    using reaches_length_x [OF reach] by simp
  show ?thesis
    using it opt len by (intro exI [of _ ?st']) (simp add: lbfgs_exit_def)
qed

theorem line_search_failure_restores_witness:
  "reaches 1 [1 / 4] eval_sq None None (Some param_one_trial) 0
     (lbfgs_entry (nat 1) (mem_size (effective_param (Some param_one_trial)))
        (lbfgs_cd 1 eval_sq None None) (effective_param (Some param_one_trial)) [1 / 4]) \<and>
   ls_ret (iteration_search (nat 1) (lbfgs_cd 1 eval_sq None None)
     (effective_param (Some param_one_trial))
     (lbfgs_entry (nat 1) (mem_size (effective_param (Some param_one_trial)))
        (lbfgs_cd 1 eval_sq None None) (effective_param (Some param_one_trial)) [1 / 4])) < 0 \<and>
   (\<exists>st'. lbfgs_optimize 1 [1 / 4] None eval_sq None None (Some param_one_trial) =
       Some (lbfgs_exit None (LBFGSERR_MAXIMUMLINESEARCH, st')) \<and> st_x st' = [1 / 4])"
proof -
  let ?st = "lbfgs_entry (nat 1) (mem_size (effective_param (Some param_one_trial)))
        (lbfgs_cd 1 eval_sq None None) (effective_param (Some param_one_trial)) [1 / 4]"
  let ?r = "iteration_search (nat 1) (lbfgs_cd 1 eval_sq None None)
     (effective_param (Some param_one_trial)) ?st"
  have h1: "reaches 1 [1 / 4] eval_sq None None (Some param_one_trial) 0 ?st"
    by (simp add: reaches_0 check_parameters_def effective_param_def param_one_trial_def
      default_param_def norm_test_def vec_defs eval_sq_def real_sqrt_divide)
  have h2: "ls_ret ?r = LBFGSERR_MAXIMUMLINESEARCH"
    by (simp add: iteration_search_def apply_stepbound_def lbfgs_entry_def lbfgs_init_def
      lbfgs_cd_def param_one_trial_def effective_param_def ls_eval real_sqrt_divide
      power2_eq_square)
  have h3: "ls_ret ?r < 0" by (simp only: h2) (simp add: status_defs)
  have h4: "length [1 / 4 :: real] = nat 1" "st_x ?st = [1 / 4]" by simp_all
  from line_search_failure_restores [OF refl refl h1 refl h3, of None]
  show ?thesis using h1 h3 h4 unfolding h2 by metis
qed

lemma line_search_failure:
  assumes r: "r = line_search_backtracking n x f g stp s xp gp stpmin stpmax cd param"
    and fail: "ls_ret r < 0"
  shows "ls_ret r \<in> {LBFGSERR_INVALIDPARAMETERS, LBFGSERR_INCREASEGRADIENT} \<and>
           ls_evals r = [] \<and> ls_f r = f \<or>
         ls_ret r \<in> {LBFGSERR_MINIMUMSTEP, LBFGSERR_MAXIMUMSTEP, LBFGSERR_MAXIMUMLINESEARCH} \<and>
           ls_evals r \<noteq> [] \<and> last (ls_evals r) = trial_point n xp s (ls_stp r) \<and>
           ls_f r = fst (proc_evaluate cd (last (ls_evals r))) \<and>
           \<not> sufficient_decrease cd n xp s f (f_dec_coeff param * vecdot gp s n) (ls_stp r)"
proof (cases "0 < stp \<and> vecdot gp s n \<le> 0")
  case True
  then obtain k where k: "ls_outcome n cd param s xp stpmin stpmax f
      (f_dec_coeff param * vecdot gp s n) 0 stp [] k r"
    unfolding r using line_search_outcome by blast
  then have "ls_evals r \<noteq> []" "last (ls_evals r) = trial_point n xp s (ls_stp r)"
    "ls_f r = fst (proc_evaluate cd (last (ls_evals r)))"
    by (simp_all add: ls_outcome_def Let_def last_map del: upt_Suc)
  moreover from k fail
  have "ls_ret r \<in> {LBFGSERR_MINIMUMSTEP, LBFGSERR_MAXIMUMSTEP, LBFGSERR_MAXIMUMLINESEARCH} \<and>
      \<not> sufficient_decrease cd n xp s f (f_dec_coeff param * vecdot gp s n) (ls_stp r)"
    by (auto simp: ls_outcome_def Let_def)
  ultimately show ?thesis by blast
next
  case False
  then show ?thesis unfolding r by (auto simp: line_search_backtracking_def Let_def not_less)
qed

text \<open>
  Claim C5 (as amended).  With a progress callback \<open>cb\<close>, a run that enters its
  \<open>(i+1)\<close>-th iteration has called \<open>cb\<close> exactly \<open>i\<close> times, with \<open>k = 1, \<dots>, i\<close>.  An
  iteration whose line search fails makes no call; one whose search succeeds makes exactly
  one, after the search, with the accepted \<open>x\<close>, \<open>g\<close>, \<open>fx\<close>, the step and the evaluation
  count.  When that call returns a non-zero value, \<^verbatim>\<open>lbfgs_optimize\<close> terminates and returns
  that very value (so \<open>LBFGSERR_CANCELED\<close> only when the callback returns it), with the
  returned \<open>x\<close> equal to the \<open>x\<close> passed into that call.
\<close>

theorem progress_callback_contract:
  assumes cd: "cd = lbfgs_cd n evaluate stepbound (Some cb)"
    and param: "param = effective_param param_opt"
    and reach: "reaches n x evaluate stepbound (Some cb) param_opt i st"
    and r: "r = iteration_search (nat n) cd param st"
    and args: "args = iteration_report (nat n) cd param st"
  shows "map pa_k (st_progress_calls st) = map int [1..<Suc i] \<and>
         (ls_ret r < 0 \<longrightarrow>
            (\<exists>st'. lbfgs_iteration (nat n) (mem_size param) cd param st = Done (ls_ret r) st' \<and>
                   st_progress_calls st' = st_progress_calls st)) \<and>
         (0 \<le> ls_ret r \<longrightarrow>
            pa_x args = ls_x r \<and> pa_g args = ls_g r \<and> pa_fx args = ls_f r \<and>
            pa_step args = ls_stp r \<and> pa_k args = int i + 1 \<and> pa_ls args = ls_ret r \<and>
            (\<forall>ret st'. lbfgs_iteration (nat n) (mem_size param) cd param st = Done ret st' \<longrightarrow>
                st_progress_calls st' = st_progress_calls st @ [args]) \<and>
            (\<forall>st'. lbfgs_iteration (nat n) (mem_size param) cd param st = Continue st' \<longrightarrow>
                st_progress_calls st' = st_progress_calls st @ [args]) \<and>
            (cb args \<noteq> 0 \<longrightarrow>
               (\<exists>res. lbfgs_optimize n x ptr_fx evaluate stepbound (Some cb) param_opt = Some res \<and>
                  res_ret res = cb args \<and> res_x res = pa_x args \<and>
                  res_progress_calls res = st_progress_calls st @ [args])))"
proof (intro conjI impI allI)
  show "map pa_k (st_progress_calls st) = map int [1..<Suc i]"
    using reaches_progress_calls [OF reach] by simp
next
  assume "ls_ret r < 0"
  then show "\<exists>st'. lbfgs_iteration (nat n) (mem_size param) cd param st = Done (ls_ret r) st' \<and>
                   st_progress_calls st' = st_progress_calls st"
    by (simp add: lbfgs_iteration_phases r)
next
  show "pa_x args = ls_x r" "pa_g args = ls_g r" "pa_fx args = ls_f r" "pa_step args = ls_stp r"
    "pa_ls args = ls_ret r"
    by (simp_all add: args r iteration_report_def Let_def)
  show "pa_k args = int i + 1"
    using reaches_k [OF reach] by (simp add: args iteration_report_def Let_def)
next
  fix ret st'
  assume ok: "0 \<le> ls_ret r"
    and d: "lbfgs_iteration (nat n) (mem_size param) cd param st = Done ret st'"
  from lbfgs_iteration_Done [OF d] ok
  show "st_progress_calls st' = st_progress_calls st @ [args]"
    by (auto simp: r args cd)
next
  fix st'
  assume "lbfgs_iteration (nat n) (mem_size param) cd param st = Continue st'"
  from lbfgs_iteration_Continue(6) [OF this]
  show "st_progress_calls st' = st_progress_calls st @ [args]"
    by (simp add: args cd)
next
  assume ok: "0 \<le> ls_ret r" and c: "cb args \<noteq> 0"
  have pr: "progress_ret (nat n) cd param st = cb args"
    by (simp add: progress_ret_def cd args)
  have "lbfgs_iteration (nat n) (mem_size param) cd param st =
      Done (cb args) (reported_state (nat n) cd param st)"
    using ok c by (simp add: lbfgs_iteration_phases r [symmetric] pr)
  from lbfgs_optimize_reaches [OF reach this [unfolded cd param]]
  have "lbfgs_optimize n x ptr_fx evaluate stepbound (Some cb) param_opt =
      Some (lbfgs_exit ptr_fx (cb args, reported_state (nat n) cd param st))"
    by (simp add: cd param)
  moreover have "res_ret (lbfgs_exit ptr_fx (cb args, reported_state (nat n) cd param st)) = cb args"
    "res_x (lbfgs_exit ptr_fx (cb args, reported_state (nat n) cd param st)) = pa_x args"
    "res_progress_calls (lbfgs_exit ptr_fx (cb args, reported_state (nat n) cd param st)) =
       st_progress_calls st @ [args]"
    by (simp_all add: lbfgs_exit_def args cd iteration_report_def Let_def)
  ultimately show "\<exists>res. lbfgs_optimize n x ptr_fx evaluate stepbound (Some cb) param_opt = Some res \<and>
                  res_ret res = cb args \<and> res_x res = pa_x args \<and>
                  res_progress_calls res = st_progress_calls st @ [args]"
    by blast
qed

lemma reaches_step:
  assumes "reaches n x evaluate stepbound progress param_opt i st"
    and "lbfgs_iteration (nat n) (mem_size (effective_param param_opt))
        (lbfgs_cd n evaluate stepbound progress) (effective_param param_opt) st = Continue st'"
  shows "reaches n x evaluate stepbound progress param_opt (Suc i) st'"
  using assms unfolding reaches_Suc by blast

lemmas iter_eval = lbfgs_iteration_def apply_stepbound_def report_progress_def lbfgs_tests_def
  stagnation_stop_def lbfgs_entry_def lbfgs_init_def lbfgs_cd_def effective_param_def ls_eval
  real_sqrt_divide power2_eq_square

theorem progress_callback_contract_witness:
  "reaches 1 [2] eval_sq None (Some progress_cancel_at_2) None 1
     (update_direction 1 8 (reported_state 1 (lbfgs_cd 1 eval_sq None (Some progress_cancel_at_2))
        default_param (lbfgs_entry 1 8 (lbfgs_cd 1 eval_sq None (Some progress_cancel_at_2))
        default_param [2]))) \<and>
   0 \<le> ls_ret (iteration_search 1 (lbfgs_cd 1 eval_sq None (Some progress_cancel_at_2))
     default_param
     (update_direction 1 8 (reported_state 1 (lbfgs_cd 1 eval_sq None (Some progress_cancel_at_2))
        default_param (lbfgs_entry 1 8 (lbfgs_cd 1 eval_sq None (Some progress_cancel_at_2))
        default_param [2])))) \<and>
   progress_cancel_at_2 (iteration_report 1 (lbfgs_cd 1 eval_sq None (Some progress_cancel_at_2))
     default_param
     (update_direction 1 8 (reported_state 1 (lbfgs_cd 1 eval_sq None (Some progress_cancel_at_2))
        default_param (lbfgs_entry 1 8 (lbfgs_cd 1 eval_sq None (Some progress_cancel_at_2))
        default_param [2])))) \<noteq> 0 \<and>
   (\<exists>res. lbfgs_optimize 1 [2] None eval_sq None (Some progress_cancel_at_2) None = Some res \<and>
      res_ret res = 1 \<and> res_x res = [0] \<and> map pa_k (res_progress_calls res) = [1, 2])"
proof -
  let ?cd = "lbfgs_cd 1 eval_sq None (Some progress_cancel_at_2)"
  let ?st0 = "lbfgs_entry 1 8 ?cd default_param [2]"
  let ?st1 = "update_direction 1 8 (reported_state 1 ?cd default_param ?st0)"
  have p: "effective_param None = default_param" "mem_size default_param = 8" "nat 1 = 1"
    by (simp_all add: effective_param_def default_param_def)
  have r0: "reaches 1 [2] eval_sq None (Some progress_cancel_at_2) None 0 ?st0"
    by (simp add: reaches_0 p)
      (simp add: check_parameters_def default_param_def norm_test_def vec_defs eval_sq_def)
  have c0: "lbfgs_iteration 1 8 ?cd default_param ?st0 = Continue ?st1"
  proof -
    have "lbfgs_iteration 1 8 ?cd default_param ?st0 =
        Continue (update_direction 1 8 (stored_state default_param
          (reported_state 1 ?cd default_param ?st0)))"
      unfolding lbfgs_iteration_phases lbfgs_tests_cases
      by (simp add: iteration_search_def progress_ret_def iteration_report_def
          progress_cancel_at_2_def iter_eval)
    also have "stored_state default_param (reported_state 1 ?cd default_param ?st0) =
        reported_state 1 ?cd default_param ?st0"
      by (simp add: stored_state_def default_param_def)
    finally show ?thesis .
  qed
  have r1: "reaches 1 [2] eval_sq None (Some progress_cancel_at_2) None 1 ?st1"
    using reaches_step [OF r0] c0 by (simp add: p)
  have rs: "iteration_search 1 ?cd default_param ?st1 =
      \<lparr>ls_ret = 1, ls_x = [0], ls_f = 0, ls_g = [0], ls_stp = 1, ls_evals = [[0]]\<rparr>"
    by (simp add: iteration_search_def reported_state_def searched_state_def iteration_report_def
        update_direction_def iter_eval)
  have ok: "0 \<le> ls_ret (iteration_search 1 ?cd default_param ?st1)"
    by (simp only: rs) simp
  have k: "st_k ?st1 = 2" by simp
  have c: "progress_cancel_at_2 (iteration_report 1 ?cd default_param ?st1) \<noteq> 0"
    by (simp add: progress_cancel_at_2_def iteration_report_def Let_def)
  have x: "pa_x (iteration_report 1 ?cd default_param ?st1) = [0]"
    by (simp only: iteration_report_def Let_def rs) simp
  have v: "progress_cancel_at_2 (iteration_report 1 ?cd default_param ?st1) = 1"
    by (simp add: progress_cancel_at_2_def iteration_report_def Let_def)
  note t = progress_callback_contract [OF refl refl r1 refl refl, of None, unfolded p]
  from t ok c obtain res where res:
    "lbfgs_optimize 1 [2] None eval_sq None (Some progress_cancel_at_2) None = Some res"
    "res_ret res = progress_cancel_at_2 (iteration_report 1 ?cd default_param ?st1)"
    "res_x res = pa_x (iteration_report 1 ?cd default_param ?st1)"
    "res_progress_calls res = st_progress_calls ?st1 @ [iteration_report 1 ?cd default_param ?st1]"
    by blast
  from t have "map pa_k (st_progress_calls ?st1) = map int [1..<Suc 1]" by blast
  then have "map pa_k (res_progress_calls res) = [1, 2]"
    using res(4) by (simp add: iteration_report_def Let_def)
  with res x v have "\<exists>res. lbfgs_optimize 1 [2] None eval_sq None (Some progress_cancel_at_2) None =
      Some res \<and> res_ret res = 1 \<and> res_x res = [0] \<and> map pa_k (res_progress_calls res) = [1, 2]"
    by auto
  with r1 ok c show ?thesis by blast
qed

text \<open>
  The claim as written fails: a callback that answers \<open>1\<close> on iteration 2 makes
  \<^verbatim>\<open>lbfgs_optimize\<close> return \<open>1\<close>, which is \<open>LBFGS_STOP\<close>, not \<open>LBFGSERR_CANCELED\<close>.
\<close>

theorem progress_return_value_counterexample:
  "map_option res_ret (lbfgs_optimize 1 [2] None eval_sq None (Some progress_cancel_at_2) None) =
     Some LBFGS_STOP \<and>
   map_option res_x (lbfgs_optimize 1 [2] None eval_sq None (Some progress_cancel_at_2) None) =
     Some [0] \<and>
   LBFGS_STOP \<noteq> LBFGSERR_CANCELED"
  by (simp add: run_eval progress_cancel_at_2_def status_defs power2_eq_square)

text \<open>
  Claim C9 (as amended).  When a run with a non-null \<open>ptr_fx\<close> ends in a failed line search,
  the value written to \<open>*ptr_fx\<close> is the \<open>f\<close> the search left behind, while the returned
  \<open>x\<close> is the restored one.  For \<open>LBFGSERR_MINIMUMSTEP\<close>, \<open>LBFGSERR_MAXIMUMSTEP\<close> and
  \<open>LBFGSERR_MAXIMUMLINESEARCH\<close> that value is the objective at the last evaluated trial
  point \<open>xp + stp\<cdot>d\<close>, which was rejected.  For \<open>LBFGSERR_INVALIDPARAMETERS\<close> and
  \<open>LBFGSERR_INCREASEGRADIENT\<close> the search evaluated nothing and the value is the objective
  at the restored \<open>x\<close>.
\<close>

theorem failed_search_objective:
  assumes cd: "cd = lbfgs_cd n evaluate stepbound progress"
    and param: "param = effective_param param_opt"
    and reach: "reaches n x evaluate stepbound progress param_opt i st"
    and r: "r = iteration_search (nat n) cd param st"
    and fail: "ls_ret r < 0"
  shows "\<exists>res. lbfgs_optimize n x (Some v) evaluate stepbound progress param_opt = Some res \<and>
           res_ret res = ls_ret r \<and> res_x res = veccpy (st_x st) (nat n) \<and>
           res_fx res = Some (ls_f r) \<and>
           (ls_ret r \<in> {LBFGSERR_MINIMUMSTEP, LBFGSERR_MAXIMUMSTEP, LBFGSERR_MAXIMUMLINESEARCH} \<or>
            ls_ret r \<in> {LBFGSERR_INVALIDPARAMETERS, LBFGSERR_INCREASEGRADIENT}) \<and>
           (ls_ret r \<in> {LBFGSERR_MINIMUMSTEP, LBFGSERR_MAXIMUMSTEP, LBFGSERR_MAXIMUMLINESEARCH} \<longrightarrow>
              ls_evals r \<noteq> [] \<and>
              last (ls_evals r) = trial_point (nat n) (st_x st) (st_d st) (ls_stp r) \<and>
              ls_f r = fst (evaluate (last (ls_evals r))) \<and>
              \<not> sufficient_decrease cd (nat n) (st_x st) (st_d st) (st_fx st)
                  (f_dec_coeff param * vecdot (veccpy (st_g st) (nat n)) (st_d st) (nat n))
                  (ls_stp r)) \<and>
           (ls_ret r \<in> {LBFGSERR_INVALIDPARAMETERS, LBFGSERR_INCREASEGRADIENT} \<longrightarrow>
              ls_evals r = [] \<and> ls_f r = st_fx st \<and> st_fx st = fst (evaluate (st_x st)))"
proof -
  let ?st' = "(searched_state (nat n) cd param st)
                \<lparr>st_x := veccpy (st_x st) (nat n), st_g := veccpy (st_g st) (nat n)\<rparr>"
  have it: "lbfgs_iteration (nat n) (mem_size param) cd param st = Done (ls_ret r) ?st'"
    using fail by (simp add: lbfgs_iteration_phases r)
  have opt: "lbfgs_optimize n x (Some v) evaluate stepbound progress param_opt =
      Some (lbfgs_exit (Some v) (ls_ret r, ?st'))"
    using lbfgs_optimize_reaches [OF reach] it unfolding cd param by blast
  have res: "res_ret (lbfgs_exit (Some v) (ls_ret r, ?st')) = ls_ret r"
    "res_x (lbfgs_exit (Some v) (ls_ret r, ?st')) = veccpy (st_x st) (nat n)"
    "res_fx (lbfgs_exit (Some v) (ls_ret r, ?st')) = Some (ls_f r)"
    by (simp_all add: lbfgs_exit_def r)
  have ev: "st_fx st = fst (evaluate (st_x st))"
    using reaches_evaluated [OF reach] by simp
  have sd: "sufficient_decrease cd' (nat n) (veccpy (st_x st) (nat n)) (st_d st) (st_fx st) c t =
      sufficient_decrease cd' (nat n) (st_x st) (st_d st) (st_fx st) c t" for cd' c t
    by (simp add: sufficient_decrease_def)
  have distinct: "{LBFGSERR_MINIMUMSTEP, LBFGSERR_MAXIMUMSTEP, LBFGSERR_MAXIMUMLINESEARCH} \<inter>
      {LBFGSERR_INVALIDPARAMETERS, LBFGSERR_INCREASEGRADIENT} = {}"
    by (simp add: status_defs)
  from line_search_failure [OF r [unfolded iteration_search_eq] fail]
  have "ls_ret r \<in> {LBFGSERR_INVALIDPARAMETERS, LBFGSERR_INCREASEGRADIENT} \<and>
           ls_evals r = [] \<and> ls_f r = st_fx st \<or>
         ls_ret r \<in> {LBFGSERR_MINIMUMSTEP, LBFGSERR_MAXIMUMSTEP, LBFGSERR_MAXIMUMLINESEARCH} \<and>
           ls_evals r \<noteq> [] \<and> last (ls_evals r) = trial_point (nat n) (st_x st) (st_d st) (ls_stp r) \<and>
           ls_f r = fst (evaluate (last (ls_evals r))) \<and>
           \<not> sufficient_decrease cd (nat n) (st_x st) (st_d st) (st_fx st)
                  (f_dec_coeff param * vecdot (veccpy (st_g st) (nat n)) (st_d st) (nat n))
                  (ls_stp r)"
    by (simp add: sd cd)
  with distinct ev opt res show ?thesis by (intro exI [of _ "lbfgs_exit (Some v) (ls_ret r, ?st')"]) blast
qed

theorem failed_search_objective_witness:
  "reaches 1 [1 / 4] eval_sq None None (Some param_one_trial) 0
     (lbfgs_entry 1 8 (lbfgs_cd 1 eval_sq None None) param_one_trial [1 / 4]) \<and>
   ls_ret (iteration_search 1 (lbfgs_cd 1 eval_sq None None) param_one_trial
     (lbfgs_entry 1 8 (lbfgs_cd 1 eval_sq None None) param_one_trial [1 / 4])) < 0 \<and>
   (\<exists>res. lbfgs_optimize 1 [1 / 4] (Some 0) eval_sq None None (Some param_one_trial) = Some res \<and>
      res_ret res = LBFGSERR_MAXIMUMLINESEARCH \<and> res_x res = [1 / 4] \<and>
      res_fx res = Some (9 / 16) \<and> fst (eval_sq [1 / 4]) = 1 / 16 \<and>
      fst (eval_sq [- (3 / 4)]) = 9 / 16)"
proof -
  let ?cd = "lbfgs_cd 1 eval_sq None None"
  let ?st = "lbfgs_entry 1 8 ?cd param_one_trial [1 / 4]"
  let ?r = "iteration_search 1 ?cd param_one_trial ?st"
  have p: "effective_param (Some param_one_trial) = param_one_trial"
    "mem_size param_one_trial = 8" "nat 1 = 1"
    by (simp_all add: effective_param_def param_one_trial_def default_param_def)
  have h1: "reaches 1 [1 / 4] eval_sq None None (Some param_one_trial) 0 ?st"
    by (simp add: reaches_0 p)
      (simp add: check_parameters_def param_one_trial_def default_param_def norm_test_def
        vec_defs eval_sq_def real_sqrt_divide)
  have h2: "?r = \<lparr>ls_ret = LBFGSERR_MAXIMUMLINESEARCH, ls_x = [- (3 / 4)], ls_f = 9 / 16,
      ls_g = [- (3 / 2)], ls_stp = 2, ls_evals = [[- (3 / 4)]]\<rparr>"
    by (simp add: iteration_search_def param_one_trial_def iter_eval)
  have h3: "ls_ret ?r < 0" by (simp only: h2) (simp add: status_defs)
  have e: "fst (eval_sq [1 / 4]) = 1 / 16" "fst (eval_sq [- (3 / 4)]) = 9 / 16"
    by (simp_all add: eval_sq_def power2_eq_square)
  from failed_search_objective [OF refl refl h1 refl, unfolded p, OF h3, of 0]
  obtain res where "lbfgs_optimize 1 [1 / 4] (Some 0) eval_sq None None (Some param_one_trial) =
      Some res" "res_ret res = ls_ret ?r" "res_x res = veccpy (st_x ?st) 1"
    "res_fx res = Some (ls_f ?r)" by blast
  then have "lbfgs_optimize 1 [1 / 4] (Some 0) eval_sq None None (Some param_one_trial) =
      Some res \<and> res_ret res = LBFGSERR_MAXIMUMLINESEARCH \<and> res_x res = [1 / 4] \<and>
      res_fx res = Some (9 / 16)"
    unfolding h2 by (simp add: veccpy_def)
  with h1 h3 e show ?thesis by blast
qed

text \<open>
  The claim as written fails for a search that is refused on entry.  On
  \<open>f(x) = x\<^sup>3/3 - x\<close> from \<open>x = -3/4\<close> the second direction is an ascent direction: the
  run ends with \<open>LBFGSERR_INCREASEGRADIENT\<close>, no trial point was evaluated in that
  iteration, and the value written is the objective at the returned \<open>x = 1/4\<close>.
\<close>

theorem failed_search_objective_counterexample:
  "lbfgs_optimize 1 [- (3 / 4)] (Some 0) eval_cubic None None None =
     Some \<lparr>res_ret = LBFGSERR_INCREASEGRADIENT, res_x = [1 / 4], res_fx = Some (- (47 / 192)),
           res_evals = [[- (3 / 4)], [1 / 4]], res_stepbound_calls = [],
           res_progress_calls = []\<rparr> \<and>
   fst (eval_cubic [1 / 4]) = - (47 / 192)"
  by (simp add: run_eval eval_cubic_def status_defs power2_eq_square power3_eq_cube)

text \<open>
  Claim C10.  No parameter check looks at \<open>max_iterations\<close>.  With a negative value, a run
  whose first iteration has a successful search, is not cancelled, does not converge and
  does not stagnate ends with \<open>LBFGSERR_MAXIMUMITERATION\<close>; hence no run ever enters a
  second iteration.
\<close>

theorem negative_iteration_cap:
  assumes cd: "cd = lbfgs_cd n evaluate stepbound progress"
    and param: "param = effective_param param_opt"
    and neg: "max_iterations param < 0"
  shows "check_parameters n (param\<lparr>max_iterations := c\<rparr>) = check_parameters n param \<and>
         (\<forall>st. reaches n x evaluate stepbound progress param_opt 0 st \<and>
            0 \<le> ls_ret (iteration_search (nat n) cd param st) \<and>
            progress_ret (nat n) cd param st = 0 \<and>
            \<not> norm_test (nat n) param (ls_x (iteration_search (nat n) cd param st))
                (ls_g (iteration_search (nat n) cd param st)) \<and>
            \<not> (\<exists>pf. st_pf st = Some pf \<and>
                 stagnation_stop param pf 1 (ls_f (iteration_search (nat n) cd param st))) \<longrightarrow>
            (\<exists>res. lbfgs_optimize n x ptr_fx evaluate stepbound progress param_opt = Some res \<and>
                   res_ret res = LBFGSERR_MAXIMUMITERATION)) \<and>
         (\<forall>i st. \<not> reaches n x evaluate stepbound progress param_opt (Suc i) st)"
proof (intro conjI allI impI)
  show "check_parameters n (param\<lparr>max_iterations := c\<rparr>) = check_parameters n param"
    by (simp add: check_parameters_def)
next
  fix st
  assume a: "reaches n x evaluate stepbound progress param_opt 0 st \<and>
            0 \<le> ls_ret (iteration_search (nat n) cd param st) \<and>
            progress_ret (nat n) cd param st = 0 \<and>
            \<not> norm_test (nat n) param (ls_x (iteration_search (nat n) cd param st))
                (ls_g (iteration_search (nat n) cd param st)) \<and>
            \<not> (\<exists>pf. st_pf st = Some pf \<and>
                 stagnation_stop param pf 1 (ls_f (iteration_search (nat n) cd param st)))"
  then have k: "st_k st = 1" using reaches_k [of n x evaluate stepbound progress param_opt 0 st]
    by simp
  have "lbfgs_iteration (nat n) (mem_size param) cd param st =
      Done LBFGSERR_MAXIMUMITERATION (stored_state param (reported_state (nat n) cd param st))"
    using a neg k
    by (auto simp: lbfgs_iteration_phases lbfgs_tests_cases norm_test_def Let_def)
  from lbfgs_optimize_reaches [OF conjunct1 [OF a] this [unfolded cd param], of ptr_fx]
  show "\<exists>res. lbfgs_optimize n x ptr_fx evaluate stepbound progress param_opt = Some res \<and>
                   res_ret res = LBFGSERR_MAXIMUMITERATION"
    by (simp add: lbfgs_exit_def)
next
  fix i st
  show "\<not> reaches n x evaluate stepbound progress param_opt (Suc i) st"
  proof
    assume "reaches n x evaluate stepbound progress param_opt (Suc i) st"
    then obtain s where s: "reaches n x evaluate stepbound progress param_opt i s"
      "lbfgs_iteration (nat n) (mem_size param) cd param s = Continue st"
      unfolding reaches_Suc cd param by blast
    from lbfgs_iteration_Continue(5) [OF s(2)] reaches_k [OF s(1)] neg
    show False by simp
  qed
qed

theorem negative_iteration_cap_witness:
  "max_iterations param_negative_cap < 0 \<and>
   reaches 1 [2] eval_sq None None (Some param_negative_cap) 0
     (lbfgs_entry 1 8 (lbfgs_cd 1 eval_sq None None) param_negative_cap [2]) \<and>
   check_parameters 1 param_negative_cap = None \<and>
   (\<exists>res. lbfgs_optimize 1 [2] None eval_sq None None (Some param_negative_cap) = Some res \<and>
      res_ret res = LBFGSERR_MAXIMUMITERATION)"
proof -
  let ?cd = "lbfgs_cd 1 eval_sq None None"
  let ?st = "lbfgs_entry 1 8 ?cd param_negative_cap [2]"
  have p: "effective_param (Some param_negative_cap) = param_negative_cap"
    "mem_size param_negative_cap = 8" "nat 1 = 1"
    by (simp_all add: effective_param_def param_negative_cap_def default_param_def)
  have neg: "max_iterations param_negative_cap < 0"
    by (simp add: param_negative_cap_def)
  have chk: "check_parameters 1 param_negative_cap = None"
    by (simp add: check_parameters_def param_negative_cap_def default_param_def)
  have h1: "reaches 1 [2] eval_sq None None (Some param_negative_cap) 0 ?st"
    by (simp add: reaches_0 p chk)
      (simp add: param_negative_cap_def default_param_def norm_test_def vec_defs eval_sq_def)
  have h2: "iteration_search 1 ?cd param_negative_cap ?st =
      \<lparr>ls_ret = 1, ls_x = [1], ls_f = 1, ls_g = [2], ls_stp = 1 / 4, ls_evals = [[1]]\<rparr>"
    by (simp add: iteration_search_def param_negative_cap_def iter_eval)
  have h3: "0 \<le> ls_ret (iteration_search 1 ?cd param_negative_cap ?st)"
    "progress_ret 1 ?cd param_negative_cap ?st = 0"
    "\<not> norm_test 1 param_negative_cap (ls_x (iteration_search 1 ?cd param_negative_cap ?st))
        (ls_g (iteration_search 1 ?cd param_negative_cap ?st))"
    "\<not> (\<exists>pf. st_pf ?st = Some pf \<and> stagnation_stop param_negative_cap pf 1
        (ls_f (iteration_search 1 ?cd param_negative_cap ?st)))"
    unfolding h2
    by (simp_all add: progress_ret_def norm_test_def vec_defs param_negative_cap_def
        default_param_def)
  from negative_iteration_cap [OF refl refl, where param_opt = "Some param_negative_cap"
      and n = 1 and x = "[2]" and evaluate = eval_sq and stepbound = None and progress = None
      and ptr_fx = None, unfolded p, OF neg]
    h1 h3 neg chk
  show ?thesis by blast
qed














lemma searched_state_stepbound_calls [simp]:
  "st_stepbound_calls (searched_state n cd param st) =
     st_stepbound_calls (snd (apply_stepbound cd param st))"
  by (simp add: searched_state_def Let_def)

lemma reported_state_stepbound_calls [simp]:
  "st_stepbound_calls (reported_state n cd param st) =
     st_stepbound_calls (snd (apply_stepbound cd param st))"
  by (simp add: reported_state_def Let_def split: option.split)

lemma apply_stepbound_calls:
  "st_stepbound_calls (snd (apply_stepbound cd param st)) =
     (case proc_stepbound cd of None \<Rightarrow> st_stepbound_calls st
      | Some sb \<Rightarrow> st_stepbound_calls st @ [(st_xp st, st_d st)])"
  by (simp add: apply_stepbound_def Let_def split: option.split)

lemma lbfgs_iteration_stepbound_calls:
  assumes "lbfgs_iteration n m cd param st = Done ret st' \<or>
           lbfgs_iteration n m cd param st = Continue st'"
  shows "st_stepbound_calls st' = st_stepbound_calls (snd (apply_stepbound cd param st))"
  using assms lbfgs_iteration_Done [of n m cd param st ret st']
    lbfgs_iteration_Continue(6) [of n m cd param st st']
  by auto

lemma reaches_stepbound_calls:
  assumes "reaches n x evaluate stepbound progress param_opt i st"
  shows "length (st_stepbound_calls st) = (if stepbound = None then 0 else i)"
proof (rule reaches_invariant [OF assms, where P = "\<lambda>i st. length (st_stepbound_calls st) =
    (if stepbound = None then 0 else i)"])
  fix j s s'
  assume P: "length (st_stepbound_calls s) = (if stepbound = None then 0 else j)"
    and c: "lbfgs_iteration (nat n) (mem_size (effective_param param_opt))
            (lbfgs_cd n evaluate stepbound progress) (effective_param param_opt) s = Continue s'"
  from lbfgs_iteration_stepbound_calls [OF disjI2 [OF c]] P
  show "length (st_stepbound_calls s') = (if stepbound = None then 0 else Suc j)"
    by (auto simp: apply_stepbound_calls split: option.splits)
qed simp

text \<open>
  Claim C8 (as amended).  With a step-bound provider \<open>sb\<close>, every iteration calls it exactly
  once, before the search, with the direction \<open>d\<close> of this iteration as its second argument;
  \<open>step_max\<close> of the iteration is the returned value clipped to \<open>max_step\<close>; and when the
  step estimate is at least \<open>step_max\<close>, the search starts from \<open>step_max / 2\<close>, otherwise
  from the estimate itself.  The statement says nothing about which point the first
  argument is.
\<close>

theorem step_bound_provider:
  assumes cd: "cd = lbfgs_cd n evaluate (Some sb) progress"
    and param: "param = effective_param param_opt"
    and reach: "reaches n x evaluate (Some sb) progress param_opt i st"
    and bound: "bound = (if sb (st_xp st) (st_d st) < max_step param
                         then sb (st_xp st) (st_d st) else max_step param)"
  shows "length (st_stepbound_calls st) = i \<and>
         snd (last (st_stepbound_calls (snd (apply_stepbound cd param st)))) = st_d st \<and>
         (\<forall>ret st'. lbfgs_iteration (nat n) (mem_size param) cd param st = Done ret st' \<or>
                    lbfgs_iteration (nat n) (mem_size param) cd param st = Continue st' \<longrightarrow>
            st_stepbound_calls st' = st_stepbound_calls st @ [(st_xp st, st_d st)]) \<and>
         bound = min (sb (st_xp st) (st_d st)) (max_step param) \<and>
         iteration_step_max cd param st = bound \<and>
         iteration_step cd param st = (if bound \<le> st_step st then bound / 2 else st_step st) \<and>
         iteration_search (nat n) cd param st =
           line_search_backtracking (nat n) (st_x st) (st_fx st) (st_g st)
             (if bound \<le> st_step st then bound / 2 else st_step st) (st_d st)
             (veccpy (st_x st) (nat n)) (veccpy (st_g st) (nat n)) (min_step param) bound cd param"
proof -
  have sm: "iteration_step_max cd param st = bound"
    by (simp add: iteration_step_max_def apply_stepbound_def cd bound Let_def)
  have st: "iteration_step cd param st = (if bound \<le> st_step st then bound / 2 else st_step st)"
    by (simp add: iteration_step_def apply_stepbound_def cd bound Let_def)
  have calls: "st_stepbound_calls (snd (apply_stepbound cd param st)) =
      st_stepbound_calls st @ [(st_xp st, st_d st)]"
    by (simp add: apply_stepbound_calls cd)
  have "length (st_stepbound_calls st) = i"
    using reaches_stepbound_calls [OF reach] by simp
  moreover have "bound = min (sb (st_xp st) (st_d st)) (max_step param)"
    by (simp add: bound min_def)
  moreover have "\<forall>ret st'. lbfgs_iteration (nat n) (mem_size param) cd param st = Done ret st' \<or>
                    lbfgs_iteration (nat n) (mem_size param) cd param st = Continue st' \<longrightarrow>
            st_stepbound_calls st' = st_stepbound_calls st @ [(st_xp st, st_d st)]"
    using lbfgs_iteration_stepbound_calls calls by metis
  ultimately show ?thesis
    using sm st calls iteration_search_eq [of "nat n" cd param st] by simp
qed

theorem step_bound_provider_witness:
  "reaches 1 [2] eval_sq (Some stepbound_eighth) None None 0
     (lbfgs_entry 1 8 (lbfgs_cd 1 eval_sq (Some stepbound_eighth) None) default_param [2]) \<and>
   st_step (lbfgs_entry 1 8 (lbfgs_cd 1 eval_sq (Some stepbound_eighth) None) default_param [2])
     = 1 / 4 \<and>
   iteration_step_max (lbfgs_cd 1 eval_sq (Some stepbound_eighth) None) default_param
     (lbfgs_entry 1 8 (lbfgs_cd 1 eval_sq (Some stepbound_eighth) None) default_param [2])
     = 1 / 8 \<and>
   iteration_step (lbfgs_cd 1 eval_sq (Some stepbound_eighth) None) default_param
     (lbfgs_entry 1 8 (lbfgs_cd 1 eval_sq (Some stepbound_eighth) None) default_param [2])
     = 1 / 16"
proof -
  let ?cd = "lbfgs_cd 1 eval_sq (Some stepbound_eighth) None"
  let ?st = "lbfgs_entry 1 8 ?cd default_param [2]"
  have p: "effective_param None = default_param" "mem_size default_param = 8" "nat 1 = 1"
    by (simp_all add: effective_param_def default_param_def)
  have h1: "reaches 1 [2] eval_sq (Some stepbound_eighth) None None 0 ?st"
    by (simp add: reaches_0 p)
      (simp add: check_parameters_def default_param_def norm_test_def vec_defs eval_sq_def)
  have s: "st_step ?st = 1 / 4"
    by (simp add: lbfgs_cd_def vec_defs eval_sq_def real_sqrt_divide)
  have b: "(if stepbound_eighth (st_xp ?st) (st_d ?st) < max_step default_param
            then stepbound_eighth (st_xp ?st) (st_d ?st) else max_step default_param) = 1 / 8"
    by (simp add: stepbound_eighth_def default_param_def)
  note t = step_bound_provider [OF refl refl h1 refl, unfolded p b]
  from t have "iteration_step_max ?cd default_param ?st = 1 / 8" by blast
  moreover from t have "iteration_step ?cd default_param ?st =
      (if 1 / 8 \<le> st_step ?st then 1 / 8 / 2 else st_step ?st)" by blast
  then have "iteration_step ?cd default_param ?st = 1 / 16" unfolding s by simp
  ultimately show ?thesis using h1 s by blast
qed

text \<open>
  The claim as written fails on \<open>f(x) = x\<^sup>2\<close> from \<open>x = 2\<close> with a provider that answers
  \<open>1/8\<close>: the step estimate \<open>1/4\<close> is replaced by \<open>1/16\<close>, half the bound, not by its own
  half \<open>1/8\<close>; and the provider is handed the still zeroed buffer \<open>xp = [0]\<close>, not the
  point \<open>[2]\<close> the search starts from.
\<close>

theorem step_bound_provider_counterexample:
  "vec2norminv (vecncpy (snd (eval_sq [2])) 1) 1 = 1 / 4 \<and>
   lbfgs_optimize 1 [2] None eval_sq (Some stepbound_eighth) (Some progress_continue)
     (Some param_cap_1) =
     Some \<lparr>res_ret = LBFGSERR_MAXIMUMITERATION, res_x = [7 / 4], res_fx = None,
           res_evals = [[2], [7 / 4]], res_stepbound_calls = [([0], [- 4])],
           res_progress_calls =
             [\<lparr>pa_x = [7 / 4], pa_g = [7 / 2], pa_fx = 49 / 16, pa_xnorm = 7 / 4,
               pa_gnorm = 7 / 2, pa_step = 1 / 16, pa_n = 1, pa_k = 1, pa_ls = 1\<rparr>]\<rparr> \<and>
   (1 / 16 :: real) \<noteq> 1 / 4 / 2 \<and> [0 :: real] \<noteq> [2]"
  by (simp add: run_eval stepbound_eighth_def progress_continue_def param_cap_1_def status_defs
      power2_eq_square)









lemma slot_less: "0 < m \<Longrightarrow> slot m e i < nat m"
  by (simp add: slot_def nat_less_iff)


lemma pair_of_alpha [simp]: "pair_of (e\<lparr>it_alpha := a\<rparr>) = pair_of e"
  by (simp add: pair_of_def)
























end
